theory Spec2Isabelle
  imports Complex_Main "HOL-Library.Sublist"
begin

section \<open>Strings\<close>

text \<open>
  A JavaScript string is a sequence of UTF-16 code units. The model uses HOL's 8-bit
  \<^typ>\<open>char\<close> and reads a character as the code unit of the same number, so it covers
  the strings whose code units are below 256 (ASCII and Latin-1). Every string literal of
  the sources is in that range.
\<close>

definition code :: "char \<Rightarrow> nat" where
  "code c = of_char c"

text \<open>\<open>\w\<close> of a JavaScript regular expression without flags: \<open>[A-Za-z0-9_]\<close>.\<close>

definition isWordChar :: "char \<Rightarrow> bool" where
  "isWordChar c \<longleftrightarrow>
     (48 \<le> code c \<and> code c \<le> 57) \<or> (65 \<le> code c \<and> code c \<le> 90) \<or>
     code c = 95 \<or> (97 \<le> code c \<and> code c \<le> 122)"

text \<open>
  \<open>\s\<close> and the characters \<open>trim\<close> strips: TAB, LF, VT, FF, CR, SPACE and, in the
  Latin-1 range, the no-break space.
\<close>

definition isWhitespace :: "char \<Rightarrow> bool" where
  "isWhitespace c \<longleftrightarrow> (9 \<le> code c \<and> code c \<le> 13) \<or> code c = 32 \<or> code c = 160"

text \<open>
  \<open>String.prototype.toLowerCase\<close> on code units below 256: \<open>A-Z\<close> and the Latin-1
  capitals (192 to 222 except the multiplication sign 215) move up by 32.
\<close>

definition toLowerChar :: "char \<Rightarrow> char" where
  "toLowerChar c =
     (if (65 \<le> code c \<and> code c \<le> 90) \<or> (192 \<le> code c \<and> code c \<le> 222 \<and> code c \<noteq> 215)
      then char_of (code c + 32) else c)"

definition toLowerCase :: "string \<Rightarrow> string" where
  "toLowerCase s = map toLowerChar s"

fun startsWith :: "string \<Rightarrow> string \<Rightarrow> bool" where
  "startsWith s [] = True"
| "startsWith [] (c # t) = False"
| "startsWith (d # s) (c # t) = (d = c \<and> startsWith s t)"

text \<open>\<open>s.includes(t)\<close>: \<open>t\<close> occurs in \<open>s\<close> as a contiguous substring.\<close>

fun includes_str :: "string \<Rightarrow> string \<Rightarrow> bool" where
  "includes_str [] t = (t = [])"
| "includes_str (c # s) t = (startsWith (c # s) t \<or> includes_str s t)"

text \<open>\<open>s.trim()\<close>.\<close>

definition trim :: "string \<Rightarrow> string" where
  "trim s = rev (dropWhile isWhitespace (rev (dropWhile isWhitespace s)))"

text \<open>
  \<open>s.split(/\s+/)\<close>: the pieces between maximal runs of whitespace; a run at the start or
  at the end leaves an empty piece there, and the empty string gives one empty piece.
  \<open>cur\<close> is the piece being read, \<open>inSep\<close> says that the last character was whitespace.
\<close>

primrec splitRun :: "string \<Rightarrow> bool \<Rightarrow> string \<Rightarrow> string list" where
  "splitRun cur inSep [] = [cur]"
| "splitRun cur inSep (c # cs) =
     (if isWhitespace c
      then (if inSep then splitRun [] True cs else cur # splitRun [] True cs)
      else splitRun (cur @ [c]) False cs)"

definition splitWhitespace :: "string \<Rightarrow> string list" where
  "splitWhitespace s = splitRun [] False s"

text \<open>
  \<open>[...new Set(xs)]\<close>: a Set keeps the first occurrence of each value, in insertion order.
\<close>

definition setInsert :: "'a list \<Rightarrow> 'a \<Rightarrow> 'a list" where
  "setInsert acc x = (if x \<in> set acc then acc else acc @ [x])"

definition newSet :: "'a list \<Rightarrow> 'a list" where
  "newSet xs = foldl setInsert [] xs"

text \<open>\<open>parts.join(sep)\<close>.\<close>

fun join :: "string \<Rightarrow> string list \<Rightarrow> string" where
  "join sep [] = []"
| "join sep [p] = p"
| "join sep (p # q # ps) = p @ sep @ join sep (q # ps)"

text \<open>The decimal numeral of a natural number, as a template literal prints it.\<close>

fun showNat :: "nat \<Rightarrow> string" where
  "showNat n = (if n < 10 then [char_of (48 + n)] else showNat (n div 10) @ [char_of (48 + n mod 10)])"

declare showNat.simps [simp del]

section \<open>The retrieval engine\<close>

subsection \<open>Data\<close>

datatype Category = Services | Support | Pricing | Process | Security | FAQ | Legal | Contact

record KnowledgeChunk =
  chunk_id :: string
  title :: string
  category :: Category
  content :: string
  chunk_keywords :: "string list"

text \<open>
  A score is a sum of the integers 3, 2 and 1 and of halves, which a JavaScript number
  holds exactly; the model uses rationals for scores and for the floor \<open>minScore\<close>.
\<close>

record RetrievalResult =
  chunk :: KnowledgeChunk
  score :: rat
  matchedKeywords :: "string list"

definition STOP_WORDS :: "string list" where
  "STOP_WORDS =
    [''a'', ''an'', ''and'', ''are'', ''as'', ''at'', ''be'', ''by'', ''for'', ''from'',
     ''has'', ''he'', ''in'', ''is'', ''it'', ''its'', ''of'', ''on'', ''or'', ''that'',
     ''the'', ''to'', ''was'', ''were'', ''will'', ''with'', ''what'', ''where'', ''when'',
     ''who'', ''why'', ''how'', ''can'', ''could'', ''would'', ''should'', ''do'', ''does'',
     ''did'', ''have'', ''had'', ''i'', ''my'', ''me'', ''we'', ''you'', ''your'', ''they'',
     ''this'', ''these'', ''those'', ''am'', ''been'', ''being'', ''there'', ''here'',
     ''just'', ''about'', ''also'', ''some'', ''any'', ''all'', ''more'', ''other'',
     ''such'', ''no'', ''not'', ''only'', ''same'', ''so'', ''than'', ''too'', ''very'']"

text \<open>
  \<open>QUESTION_PATTERNS\<close>: an object literal with string keys; \<open>Object.entries\<close> lists
  them in the order they are written.
\<close>

definition QUESTION_PATTERNS :: "(string \<times> string list) list" where
  "QUESTION_PATTERNS =
    [(''services'', [''services'', ''offer'', ''provide'', ''build'', ''develop'', ''create'',
        ''website'', ''web'', ''app'', ''application'', ''saas'', ''mvp'', ''chatbot'', ''ai'',
        ''api'', ''ux'', ''ui'']),
     (''pricing'', [''price'', ''cost'', ''pay'', ''pricing'', ''money'', ''billing'',
        ''invoice'', ''rate'', ''hourly'', ''fixed'', ''budget'', ''quote'', ''estimate'',
        ''charge'', ''fee'', ''much'']),
     (''support'', [''help'', ''support'', ''contact'', ''reach'', ''call'', ''email'',
        ''hours'', ''available'', ''when'', ''time'', ''schedule'', ''language'', ''english'',
        ''french'']),
     (''process'', [''process'', ''workflow'', ''steps'', ''phases'', ''start'', ''begin'',
        ''timeline'', ''project'', ''stages'', ''consultation'', ''delivery'']),
     (''security'', [''security'', ''privacy'', ''data'', ''safe'', ''secure'',
        ''confidential'', ''access'', ''credentials'', ''login'', ''password'', ''account'',
        ''gdpr'']),
     (''legal'', [''refund'', ''cancel'', ''contract'', ''agreement'', ''legal'', ''terms'',
        ''scope'', ''policy'', ''cancellation'']),
     (''faq'', [''redesign'', ''mobile'', ''app'', ''api'', ''integration'', ''maintain'',
        ''maintenance'', ''existing'', ''third-party'', ''legacy''])]"

subsection \<open>The knowledge base\<close>

text \<open>
  \<open>COMPANY_NAME = import.meta.env.VITE_COMPANY_NAME || 'Our Company'\<close>: the argument is
  the environment variable, \<open>None\<close> when it is not set.
\<close>

definition COMPANY_NAME :: "string option \<Rightarrow> string" where
  "COMPANY_NAME v = (case v of None \<Rightarrow> ''Our Company'' | Some s \<Rightarrow> if s = [] then ''Our Company'' else s)"

text \<open>The sixteen chunks, each with the company name \<open>cn\<close> put into its text.\<close>

definition chunk_services_overview :: "string \<Rightarrow> KnowledgeChunk" where
  "chunk_services_overview cn =
     \<lparr> chunk_id = ''services-overview'',
       title = ''Services Offered'',
       category = Services,
       content =
        cn @ '' provides the following services:\<newline>'' @
        ''- Custom website development\<newline>'' @
        ''- Web application development\<newline>'' @
        ''- SaaS MVP development\<newline>'' @
        ''- AI-powered chatbot integration\<newline>'' @
        ''- Internal business tools\<newline>'' @
        ''- API development and integration\<newline>'' @
        ''- Maintenance and technical support\<newline>'' @
        ''- UI/UX implementation from design files\<newline>'' @
        ''\<newline>'' @
        ''We work primarily with modern web technologies such as JavaScript, React, Node.js, and cloud-based solutions.'',
       chunk_keywords =
        [''services'', ''website'', ''web'', ''application'', ''saas'', ''mvp'',
         ''chatbot'', ''ai'', ''tools'', ''api'', ''maintenance'', ''support'', ''ui'',
         ''ux'', ''design'', ''javascript'', ''react'', ''node'', ''cloud'',
         ''development'', ''build'', ''create'', ''offer'', ''provide'', ''what'',
         ''do'', ''you''] \<rparr>"

definition chunk_support_hours :: "string \<Rightarrow> KnowledgeChunk" where
  "chunk_support_hours cn =
     \<lparr> chunk_id = ''support-hours'',
       title = ''Customer Support Hours'',
       category = Support,
       content =
        ''Our customer support team is available:\<newline>'' @
        ''- Monday to Friday\<newline>'' @
        ''- From 9:00 AM to 6:00 PM (UTC)\<newline>'' @
        ''\<newline>'' @
        ''Support requests submitted outside business hours are processed the next business day.'',
       chunk_keywords =
        [''support'', ''hours'', ''time'', ''available'', ''availability'', ''monday'',
         ''friday'', ''business'', ''contact'', ''when'', ''open'', ''schedule'',
         ''utc'', ''customer'', ''help'', ''reach'', ''working''] \<rparr>"

definition chunk_pricing_billing :: "string \<Rightarrow> KnowledgeChunk" where
  "chunk_pricing_billing cn =
     \<lparr> chunk_id = ''pricing-billing'',
       title = ''Pricing & Billing'',
       category = Pricing,
       content =
        cn @ '' offers flexible pricing models depending on the project:\<newline>'' @
        ''- Fixed-price projects for clearly defined scopes\<newline>'' @
        ''- Hourly billing for ongoing or evolving projects\<newline>'' @
        ''- Monthly maintenance plans for long-term clients\<newline>'' @
        ''\<newline>'' @
        ''Invoices are issued at the beginning or end of each billing cycle, depending on the agreement. Payments are accepted via bank transfer or online payment platforms.'',
       chunk_keywords =
        [''pricing'', ''price'', ''cost'', ''billing'', ''invoice'', ''payment'',
         ''pay'', ''fixed'', ''hourly'', ''monthly'', ''rate'', ''charge'', ''fee'',
         ''money'', ''budget'', ''quote'', ''estimate'', ''bank'', ''transfer'',
         ''how'', ''much''] \<rparr>"

definition chunk_project_process :: "string \<Rightarrow> KnowledgeChunk" where
  "chunk_project_process cn =
     \<lparr> chunk_id = ''project-process'',
       title = ''Project Process & Workflow'',
       category = Process,
       content =
        ''Our typical project workflow includes:\<newline>'' @
        ''1. Initial consultation and requirement gathering\<newline>'' @
        ''2. Proposal and timeline approval\<newline>'' @
        ''3. Design and development phase\<newline>'' @
        ''4. Testing and quality assurance\<newline>'' @
        ''5. Deployment and delivery\<newline>'' @
        ''6. Post-launch support and maintenance\<newline>'' @
        ''\<newline>'' @
        ''Clients are kept informed throughout the project with regular updates.'',
       chunk_keywords =
        [''project'', ''process'', ''workflow'', ''steps'', ''phases'',
         ''consultation'', ''requirements'', ''proposal'', ''timeline'', ''design'',
         ''development'', ''testing'', ''qa'', ''quality'', ''deployment'',
         ''delivery'', ''launch'', ''updates'', ''how'', ''work'', ''start'', ''begin'',
         ''stages''] \<rparr>"

definition chunk_technical_support :: "string \<Rightarrow> KnowledgeChunk" where
  "chunk_technical_support cn =
     \<lparr> chunk_id = ''technical-support'',
       title = ''Technical Support & Maintenance'',
       category = Support,
       content =
        ''We provide ongoing technical support after project delivery. This includes:\<newline>'' @
        ''- Bug fixes\<newline>'' @
        ''- Security updates\<newline>'' @
        ''- Performance improvements\<newline>'' @
        ''- Minor feature enhancements\<newline>'' @
        ''\<newline>'' @
        ''Maintenance plans are available on a monthly basis and can be customized to client needs.'',
       chunk_keywords =
        [''technical'', ''support'', ''maintenance'', ''bug'', ''fix'', ''security'',
         ''update'', ''performance'', ''enhancement'', ''monthly'', ''plan'',
         ''ongoing'', ''after'', ''delivery'', ''help'', ''issue'', ''problem'',
         ''error''] \<rparr>"

definition chunk_ai_chatbot_services :: "string \<Rightarrow> KnowledgeChunk" where
  "chunk_ai_chatbot_services cn =
     \<lparr> chunk_id = ''ai-chatbot-services'',
       title = ''AI Chatbot Services'',
       category = Services,
       content =
        cn @ '' offers AI-powered chatbot solutions that help businesses:\<newline>'' @
        ''- Answer customer questions automatically\<newline>'' @
        ''- Reduce support workload\<newline>'' @
        ''- Provide 24/7 assistance\<newline>'' @
        ''- Improve response time and customer satisfaction\<newline>'' @
        ''\<newline>'' @
        ''Our chatbots can be trained on company-specific documents such as FAQs, policies, and internal documentation.'',
       chunk_keywords =
        [''ai'', ''chatbot'', ''bot'', ''artificial'', ''intelligence'', ''automation'',
         ''automatic'', ''24/7'', ''questions'', ''answers'', ''support'', ''customer'',
         ''train'', ''training'', ''documents'', ''faq'', ''assistant''] \<rparr>"

definition chunk_data_privacy_security :: "string \<Rightarrow> KnowledgeChunk" where
  "chunk_data_privacy_security cn =
     \<lparr> chunk_id = ''data-privacy-security'',
       title = ''Data Privacy & Security'',
       category = Security,
       content =
        ''We take data privacy seriously.\<newline>'' @
        ''- Client data is never shared with third parties\<newline>'' @
        ''- All data is processed securely\<newline>'' @
        ''- Access to internal systems is restricted\<newline>'' @
        ''- AI systems are configured to use only approved data sources\<newline>'' @
        ''\<newline>'' @
        ''We comply with general data protection principles and best practices.'',
       chunk_keywords =
        [''data'', ''privacy'', ''security'', ''secure'', ''protection'', ''gdpr'',
         ''confidential'', ''safe'', ''third'', ''party'', ''access'', ''restricted'',
         ''compliance'', ''information'', ''private''] \<rparr>"

definition chunk_account_access :: "string \<Rightarrow> KnowledgeChunk" where
  "chunk_account_access cn =
     \<lparr> chunk_id = ''account-access'',
       title = ''Account & Access Credentials'',
       category = Security,
       content =
        ''Clients receive secure access credentials for any systems developed by '' @ cn @ ''.\<newline>'' @
        ''\<newline>'' @
        ''It is the client's responsibility to keep login credentials confidential. '' @ cn @ '' is not responsible for issues caused by unauthorized access due to credential sharing.'',
       chunk_keywords =
        [''account'', ''access'', ''credentials'', ''login'', ''password'', ''secure'',
         ''responsibility'', ''unauthorized'', ''sharing'', ''confidential'',
         ''username''] \<rparr>"

definition chunk_faq_redesign :: "string \<Rightarrow> KnowledgeChunk" where
  "chunk_faq_redesign cn =
     \<lparr> chunk_id = ''faq-redesign'',
       title = ''FAQ: Website Redesign'',
       category = FAQ,
       content =
        ''Q: Do you offer website redesign services?\<newline>'' @
        ''\<newline>'' @
        ''Yes, we redesign existing websites to improve performance, usability, and modern design standards.'',
       chunk_keywords =
        [''redesign'', ''website'', ''existing'', ''improve'', ''update'', ''refresh'',
         ''modernize'', ''revamp'', ''old'', ''current'', ''remake'', ''offer''] \<rparr>"

definition chunk_faq_api_integration :: "string \<Rightarrow> KnowledgeChunk" where
  "chunk_faq_api_integration cn =
     \<lparr> chunk_id = ''faq-api-integration'',
       title = ''FAQ: Third-Party API Integration'',
       category = FAQ,
       content =
        ''Q: Can you integrate third-party APIs?\<newline>'' @
        ''\<newline>'' @
        ''Yes, we regularly integrate payment gateways, CRM systems, and external APIs.'',
       chunk_keywords =
        [''api'', ''integration'', ''integrate'', ''third-party'', ''payment'',
         ''gateway'', ''crm'', ''external'', ''connect'', ''stripe'', ''paypal'',
         ''system''] \<rparr>"

definition chunk_faq_mobile_app :: "string \<Rightarrow> KnowledgeChunk" where
  "chunk_faq_mobile_app cn =
     \<lparr> chunk_id = ''faq-mobile-app'',
       title = ''FAQ: Mobile App Development'',
       category = FAQ,
       content =
        ''Q: Do you provide mobile app development?\<newline>'' @
        ''\<newline>'' @
        ''Our primary focus is web applications. Mobile apps may be developed using web-based technologies depending on requirements.'',
       chunk_keywords =
        [''mobile'', ''app'', ''application'', ''ios'', ''android'', ''phone'',
         ''smartphone'', ''pwa'', ''responsive'', ''native''] \<rparr>"

definition chunk_faq_existing_maintenance :: "string \<Rightarrow> KnowledgeChunk" where
  "chunk_faq_existing_maintenance cn =
     \<lparr> chunk_id = ''faq-existing-maintenance'',
       title = ''FAQ: Existing Project Maintenance'',
       category = FAQ,
       content =
        ''Q: Can you maintain an existing project?\<newline>'' @
        ''\<newline>'' @
        ''Yes, we offer maintenance services for both projects developed by us and third-party systems.'',
       chunk_keywords =
        [''maintain'', ''maintenance'', ''existing'', ''project'', ''third-party'',
         ''legacy'', ''old'', ''current'', ''take'', ''over'', ''takeover''] \<rparr>"

definition chunk_contracts_legal :: "string \<Rightarrow> KnowledgeChunk" where
  "chunk_contracts_legal cn =
     \<lparr> chunk_id = ''contracts-legal'',
       title = ''Contracts & Legal Agreements'',
       category = Legal,
       content =
        ''All projects are governed by a service agreement that defines scope, timelines, pricing, and responsibilities.\<newline>'' @
        ''\<newline>'' @
        ''Changes outside the original scope may require a revised agreement or additional charges.'',
       chunk_keywords =
        [''contract'', ''legal'', ''agreement'', ''scope'', ''timeline'', ''terms'',
         ''conditions'', ''responsibilities'', ''changes'', ''revision'', ''document'',
         ''sign'', ''nda''] \<rparr>"

definition chunk_refunds_cancellations :: "string \<Rightarrow> KnowledgeChunk" where
  "chunk_refunds_cancellations cn =
     \<lparr> chunk_id = ''refunds-cancellations'',
       title = ''Refunds & Cancellations Policy'',
       category = Legal,
       content =
        ''Refunds depend on the project stage:\<newline>'' @
        ''- Work already completed is non-refundable\<newline>'' @
        ''- Remaining unused hours or phases may be refundable\<newline>'' @
        ''- Cancellations must be submitted in writing\<newline>'' @
        ''\<newline>'' @
        ''Each case is reviewed individually.'',
       chunk_keywords =
        [''refund'', ''refunds'', ''cancel'', ''cancellation'', ''money'', ''back'',
         ''return'', ''policy'', ''completed'', ''unused'', ''writing'', ''stop''] \<rparr>"

definition chunk_contact_info :: "string \<Rightarrow> KnowledgeChunk" where
  "chunk_contact_info cn =
     \<lparr> chunk_id = ''contact-info'',
       title = ''Contact Information'',
       category = Contact,
       content =
        ''Clients can contact '' @ cn @ '' via:\<newline>'' @
        ''- Email support\<newline>'' @
        ''- Contact forms on the website\<newline>'' @
        ''- Scheduled video calls\<newline>'' @
        ''\<newline>'' @
        ''Response time is typically within 24 business hours.'',
       chunk_keywords =
        [''contact'', ''email'', ''phone'', ''call'', ''reach'', ''message'', ''form'',
         ''video'', ''meeting'', ''response'', ''time'', ''how'', ''get'', ''touch'',
         ''talk'', ''speak''] \<rparr>"

definition chunk_language_support :: "string \<Rightarrow> KnowledgeChunk" where
  "chunk_language_support cn =
     \<lparr> chunk_id = ''language-support'',
       title = ''Multi-Language Support'',
       category = Support,
       content =
        cn @ '' supports clients in:\<newline>'' @
        ''- English\<newline>'' @
        ''- French\<newline>'' @
        ''\<newline>'' @
        ''Documentation and communication can be provided in either language.'',
       chunk_keywords =
        [''language'', ''english'', ''french'', ''multilingual'', ''translation'',
         ''communication'', ''documentation'', ''speak'', ''parler'',
         ''fran'' @ [CHR 0xC3] @ [CHR 0xA7] @ ''ais'', ''languages''] \<rparr>"

definition knowledgeBase :: "string \<Rightarrow> KnowledgeChunk list" where
  "knowledgeBase cn =
    [chunk_services_overview cn,
     chunk_support_hours cn,
     chunk_pricing_billing cn,
     chunk_project_process cn,
     chunk_technical_support cn,
     chunk_ai_chatbot_services cn,
     chunk_data_privacy_security cn,
     chunk_account_access cn,
     chunk_faq_redesign cn,
     chunk_faq_api_integration cn,
     chunk_faq_mobile_app cn,
     chunk_faq_existing_maintenance cn,
     chunk_contracts_legal cn,
     chunk_refunds_cancellations cn,
     chunk_contact_info cn,
     chunk_language_support cn]"

subsection \<open>extractKeywords\<close>

text \<open>\<open>.replace(/[^\w\s]/g, ' ')\<close> on one character.\<close>

definition replacePunctuation :: "char \<Rightarrow> char" where
  "replacePunctuation c = (if \<not> isWordChar c \<and> \<not> isWhitespace c then CHR '' '' else c)"

definition extractKeywords :: "string \<Rightarrow> string list" where
  "extractKeywords query =
     (let words =
        filter (\<lambda>word. word \<notin> set STOP_WORDS)
          (filter (\<lambda>word. length word > 2)
            (splitWhitespace (map replacePunctuation (toLowerCase query))))
      in newSet words)"

subsection \<open>detectQuestionType\<close>

text \<open>The predicate of the \<open>filter\<close>: \<open>patterns.some(p => kw.includes(p) || p.includes(kw))\<close>.\<close>

definition matchesPattern :: "string list \<Rightarrow> string \<Rightarrow> bool" where
  "matchesPattern patterns kw \<longleftrightarrow> (\<exists>p \<in> set patterns. includes_str kw p \<or> includes_str p kw)"

definition matchCount :: "string list \<Rightarrow> string list \<Rightarrow> nat" where
  "matchCount keywords patterns = length (filter (matchesPattern patterns) keywords)"

text \<open>One pass of the loop body on the state \<open>(bestMatch, bestScore)\<close>.\<close>

definition detectStep ::
  "string list \<Rightarrow> string option \<times> nat \<Rightarrow> string \<times> string list \<Rightarrow> string option \<times> nat" where
  "detectStep keywords st entry =
     (if matchCount keywords (snd entry) > snd st
      then (Some (fst entry), matchCount keywords (snd entry)) else st)"

definition detectLoop :: "(string \<times> string list) list \<Rightarrow> string list \<Rightarrow> string option \<times> nat" where
  "detectLoop entries keywords = foldl (detectStep keywords) (None, 0) entries"

definition detectQuestionTypeIn :: "(string \<times> string list) list \<Rightarrow> string list \<Rightarrow> string option" where
  "detectQuestionTypeIn entries keywords =
     (case detectLoop entries keywords of
        (bestMatch, bestScore) \<Rightarrow> if bestScore > 0 then bestMatch else None)"

definition detectQuestionType :: "string list \<Rightarrow> string option" where
  "detectQuestionType keywords = detectQuestionTypeIn QUESTION_PATTERNS keywords"

subsection \<open>scoreChunk\<close>

text \<open>
  The three loops of \<open>scoreChunk\<close>, each a fold over the query keywords on the state
  \<open>(score, matchedKeywords)\<close>. The inner loop of the first one stops at the first chunk
  keyword that matches (\<open>break\<close>), so a query keyword adds 3 once.
\<close>

definition keywordHit :: "string list \<Rightarrow> string \<Rightarrow> bool" where
  "keywordHit chunkKws queryKw \<longleftrightarrow>
     (\<exists>chunkKw \<in> set chunkKws. includes_str chunkKw queryKw \<or> includes_str queryKw chunkKw)"

definition keywordStep :: "string list \<Rightarrow> rat \<times> string list \<Rightarrow> string \<Rightarrow> rat \<times> string list" where
  "keywordStep chunkKws st queryKw =
     (if keywordHit chunkKws queryKw then (fst st + 3, snd st @ [queryKw]) else st)"

definition textStep :: "rat \<Rightarrow> string \<Rightarrow> rat \<times> string list \<Rightarrow> string \<Rightarrow> rat \<times> string list" where
  "textStep weight lowered st queryKw =
     (if includes_str lowered queryKw
      then (fst st + weight, if queryKw \<in> set (snd st) then snd st else snd st @ [queryKw])
      else st)"

definition scoreChunk :: "KnowledgeChunk \<Rightarrow> string list \<Rightarrow> RetrievalResult" where
  "scoreChunk c queryKeywords =
     (let st1 = foldl (keywordStep (chunk_keywords c)) (0, []) queryKeywords;
          titleLower = toLowerCase (title c);
          st2 = foldl (textStep 2 titleLower) st1 queryKeywords;
          contentLower = toLowerCase (content c);
          st3 = foldl (textStep 1 contentLower) st2 queryKeywords;
          uniqueMatches = length (newSet (snd st3))
      in \<lparr> chunk = c,
           score = fst st3 + of_nat uniqueMatches * (1 / 2),
           matchedKeywords = newSet (snd st3) \<rparr>)"

subsection \<open>retrieveRelevantChunks\<close>

text \<open>
  \<open>xs.slice(0, k)\<close> for an integer \<open>k\<close>: a negative end counts from the end of the array.
\<close>

definition slice0 :: "int \<Rightarrow> 'a list \<Rightarrow> 'a list" where
  "slice0 k xs = (if k < 0 then take (nat (int (length xs) + k)) xs else take (nat k) xs)"

text \<open>
  \<open>xs.sort((a, b) => b.score - a.score)\<close>: \<open>Array.prototype.sort\<close> is stable, and the
  comparator orders by decreasing score; the stable insertion sort on the negated score
  computes the same array.
\<close>

definition sortByScoreDesc :: "RetrievalResult list \<Rightarrow> RetrievalResult list" where
  "sortByScoreDesc rs = sort_key (\<lambda>r. - score r) rs"

text \<open>
  The function reads the module-level \<open>knowledgeBase\<close>; the model takes it as the first
  argument \<open>kb\<close>.
\<close>

definition retrieveRelevantChunks ::
  "KnowledgeChunk list \<Rightarrow> string \<Rightarrow> int \<Rightarrow> rat \<Rightarrow> RetrievalResult list" where
  "retrieveRelevantChunks kb query topK minScore =
     (let queryKeywords = extractKeywords query
      in if length queryKeywords = 0 then []
         else
           let scoredChunks = map (\<lambda>c. scoreChunk c queryKeywords) kb
           in slice0 topK (sortByScoreDesc (filter (\<lambda>result. score result \<ge> minScore) scoredChunks)))"

subsection \<open>formatContextForPrompt\<close>

text \<open>\<open>results.map((result, index) => ...)\<close>, with \<open>index\<close> counted from \<open>i\<close>.\<close>

fun contextParts :: "nat \<Rightarrow> RetrievalResult list \<Rightarrow> string list" where
  "contextParts i [] = []"
| "contextParts i (r # rs) =
     (''[Document '' @ showNat (i + 1) @ '': '' @ title (chunk r) @ '']\<newline>'' @ content (chunk r))
       # contextParts (i + 1) rs"

definition formatContextForPrompt :: "RetrievalResult list \<Rightarrow> string" where
  "formatContextForPrompt results =
     (if length results = 0 then ''''
      else join ''\<newline>\<newline>---\<newline>\<newline>'' (contextParts 0 results))"

subsection \<open>getRelevantContext and retrieveContext\<close>

text \<open>The results are the triples \<open>(context, hasRelevantInfo, chunks)\<close> and \<open>(context, hasContext, chunks)\<close>.\<close>

definition getRelevantContext :: "KnowledgeChunk list \<Rightarrow> string \<Rightarrow> string \<times> bool \<times> RetrievalResult list" where
  "getRelevantContext kb query =
     (let chunks = retrieveRelevantChunks kb query 4 2;
          context = formatContextForPrompt chunks
      in (context, length chunks > 0, chunks))"

definition retrieveContext :: "KnowledgeChunk list \<Rightarrow> string \<Rightarrow> string \<times> bool \<times> KnowledgeChunk list" where
  "retrieveContext kb query =
     (case getRelevantContext kb query of
        (context, hasRelevantInfo, chunks) \<Rightarrow> (context, hasRelevantInfo, map chunk chunks))"

section \<open>The completion service (AIService)\<close>

subsection \<open>Data\<close>

datatype Role = System | User | Assistant

record ChatMessage =
  role :: Role
  message_content :: string

text \<open>
  \<open>AIServiceError\<close>: the one error class of the service, with the text for the log, the
  HTTP status and the text for the user.
\<close>

record AIServiceError =
  error_message :: string
  statusCode :: nat
  userMessage :: string

record AIService =
  apiUrl :: string
  apiKey :: string
  model :: string
  companyName :: string
  referer :: string

record AICompletionRequest =
  messages :: "ChatMessage list"
  maxTokens :: "nat option"
  temperature :: "rat option"

text \<open>
  A value read from JSON. An object is the list of its entries, with the keys of a parsed
  object all different; a property that is absent reads as \<open>undefined\<close>, which is \<open>None\<close>
  in \<open>json option\<close>.
\<close>

datatype json =
  JNull | JBool bool | JNumber rat | JString string | JArray "json list"
  | JObject "(string \<times> json) list"

text \<open>
  \<open>reply\<close> is declared a string, and is whatever value \<open>content\<close> holds in the provider's
  answer when that value is truthy.
\<close>

record AICompletionResponse =
  reply :: json
  response_model :: string

text \<open>
  What the provider sends back: the status, what \<open>response.text()\<close> reads and what
  \<open>response.json()\<close> reads, which is the message of the error it throws when the body
  is not JSON. Either read can fail while the body is still arriving, and then it throws:
  \<open>bodyText\<close> is the text read, or the message of the error thrown by the read.
\<close>

record ProviderResponse =
  status :: nat
  bodyText :: "string + string"
  bodyJson :: "string + json"

text \<open>
  The ways \<open>await fetch(...)\<close> ends: the timer aborted it (an \<open>AbortError\<close>), it threw
  another error (with that error's message), or a response arrived.
\<close>

datatype FetchOutcome = Aborted | Rejected string | Responded ProviderResponse

subsection \<open>Reading the provider's answer\<close>

text \<open>\<open>v.name\<close> on a value that is neither null nor undefined, for a name that is not an index.\<close>

fun getProp :: "string \<Rightarrow> json \<Rightarrow> json option" where
  "getProp name (JObject entries) = map_of entries name"
| "getProp name v = None"

text \<open>\<open>v[0]\<close>: the first element of an array, the first character of a string.\<close>

fun index0 :: "json \<Rightarrow> json option" where
  "index0 (JObject entries) = map_of entries ''0''"
| "index0 (JArray []) = None"
| "index0 (JArray (x # xs)) = Some x"
| "index0 (JString []) = None"
| "index0 (JString (c # s)) = Some (JString [c])"
| "index0 v = None"

text \<open>\<open>v?.p\<close>: undefined when \<open>v\<close> is undefined or null.\<close>

fun optChain :: "json option \<Rightarrow> (json \<Rightarrow> json option) \<Rightarrow> json option" where
  "optChain None f = None"
| "optChain (Some JNull) f = None"
| "optChain (Some v) f = f v"

fun truthy :: "json option \<Rightarrow> bool" where
  "truthy None = False"
| "truthy (Some JNull) = False"
| "truthy (Some (JBool b)) = b"
| "truthy (Some (JNumber n)) = (n \<noteq> 0)"
| "truthy (Some (JString s)) = (s \<noteq> [])"
| "truthy (Some v) = True"

definition fallbackReply :: string where
  "fallbackReply = ''I'm sorry, I couldn't generate a response.''"

text \<open>\<open>data.choices?.[0]?.message?.content\<close>, for \<open>data\<close> that is not null.\<close>

definition firstChoiceContent :: "json \<Rightarrow> json option" where
  "firstChoiceContent data =
     optChain (optChain (optChain (getProp ''choices'' data) index0) (getProp ''message''))
       (getProp ''content'')"

definition extractReply :: "json \<Rightarrow> json" where
  "extractReply data =
     (if truthy (firstChoiceContent data) then the (firstChoiceContent data)
      else JString fallbackReply)"

subsection \<open>handleHttpError\<close>

text \<open>The function always throws; the model returns the error it throws.\<close>

definition handleHttpError :: "nat \<Rightarrow> string \<Rightarrow> AIServiceError" where
  "handleHttpError st errorText =
     (if st = 429 then
        \<lparr> error_message = ''Rate limit exceeded'', statusCode = 429,
          userMessage = ''Service is busy. Please try again in a moment.'' \<rparr>
      else if st = 401 \<or> st = 403 then
        \<lparr> error_message = ''Authentication failed'', statusCode = 500,
          userMessage = ''AI service authentication failed. Please check API key.'' \<rparr>
      else if st = 400 then
        \<lparr> error_message = ''Bad request'', statusCode = 400,
          userMessage = ''Invalid request to AI service.'' \<rparr>
      else
        \<lparr> error_message = ''OpenRouter error: '' @ showNat st, statusCode = 500,
          userMessage = ''Failed to generate response. Please try again.'' \<rparr>)"

subsection \<open>complete\<close>

definition ok :: "ProviderResponse \<Rightarrow> bool" where
  "ok r \<longleftrightarrow> 200 \<le> status r \<and> status r \<le> 299"

text \<open>The last branch of the \<open>catch\<close>: an error that is neither of the two known kinds.\<close>

definition unexpectedError :: "string \<Rightarrow> AIServiceError" where
  "unexpectedError msg =
     \<lparr> error_message = msg, statusCode = 500,
       userMessage = ''An unexpected error occurred. Please try again.'' \<rparr>"

definition timeoutError :: AIServiceError where
  "timeoutError =
     \<lparr> error_message = ''Request timeout'', statusCode = 504,
       userMessage = ''The AI service took too long to respond. Please try again.'' \<rparr>"

text \<open>
  The method \<open>complete\<close>, named \<open>completeRequest\<close> here. It makes one \<open>fetch\<close> call; the model takes the way that call ends as its last
  argument. The request decides only what is sent. On a response that is not ok the body
  is read first, inside the \<open>try\<close>: when that read throws, the \<open>catch\<close> turns the error
  into the unexpected error, and \<open>handleHttpError\<close> is not reached. Reading
  \<open>data.choices\<close> on \<open>null\<close> throws a \<open>TypeError\<close>, which ends in the same branch of the
  \<open>catch\<close>.
\<close>

definition completeRequest ::
  "AIService \<Rightarrow> AICompletionRequest \<Rightarrow> FetchOutcome \<Rightarrow> AIServiceError + AICompletionResponse" where
  "completeRequest svc request outcome =
     (case outcome of
        Aborted \<Rightarrow> Inl timeoutError
      | Rejected msg \<Rightarrow> Inl (unexpectedError msg)
      | Responded response \<Rightarrow>
          if \<not> ok response then
            (case bodyText response of
               Inl msg \<Rightarrow> Inl (unexpectedError msg)
             | Inr errorText \<Rightarrow> Inl (handleHttpError (status response) errorText))
          else
            (case bodyJson response of
               Inl msg \<Rightarrow> Inl (unexpectedError msg)
             | Inr JNull \<Rightarrow>
                 Inl (unexpectedError ''Cannot read properties of null (reading 'choices')'')
             | Inr data \<Rightarrow> Inr \<lparr> reply = extractReply data, response_model = model svc \<rparr>))"

subsection \<open>buildSystemPrompt and createConversation\<close>

definition buildSystemPrompt :: "AIService \<Rightarrow> string \<Rightarrow> bool \<Rightarrow> string" where
  "buildSystemPrompt svc context hasContext =
     (if \<not> hasContext then
        ''You are a professional customer support agent for '' @ companyName svc @ ''.\<newline>'' @
        ''\<newline>'' @
        ''CRITICAL: The user's question does not match any information in your knowledge base.\<newline>'' @
        ''\<newline>'' @
        ''You MUST respond with exactly:\<newline>'' @
        ''\"I'm sorry, I don't have information about that. Please contact our support team for assistance.\"\<newline>'' @
        ''\<newline>'' @
        ''Do NOT attempt to answer the question. Do NOT make up any information.''
      else
        ''You are a professional customer support agent for '' @ companyName svc @ ''.\<newline>'' @
        ''\<newline>'' @
        ''STRICT RULES YOU MUST FOLLOW:\<newline>'' @
        ''1. Answer ONLY using the information provided in the CONTEXT below.\<newline>'' @
        ''2. If the CONTEXT doesn't fully answer the question, say what you know and mention you don't have more details.\<newline>'' @
        ''3. NEVER invent or assume information not in the CONTEXT.\<newline>'' @
        ''4. Be helpful, professional, and concise.\<newline>'' @
        ''5. Use a friendly but professional tone.\<newline>'' @
        ''6. When answering questions, synthesize the information naturally - don't just quote the sources.\<newline>'' @
        ''\<newline>'' @
        ''CONTEXT FROM KNOWLEDGE BASE:\<newline>'' @
        context @ ''\<newline>'' @
        ''\<newline>'' @
        ''---END OF CONTEXT---\<newline>'' @
        ''\<newline>'' @
        ''Answer the user's question using ONLY the information above. If you cannot answer from the context, say \"I don't have specific information about that. Please contact our support team for assistance.\"'')"

text \<open>\<open>xs.slice(-6)\<close>: the last six elements, all of them when there are fewer.\<close>

definition sliceLast6 :: "'a list \<Rightarrow> 'a list" where
  "sliceLast6 xs = drop (length xs - 6) xs"

definition createConversation ::
  "AIService \<Rightarrow> string \<Rightarrow> string \<Rightarrow> ChatMessage list \<Rightarrow> ChatMessage list \<times> bool" where
  "createConversation svc userMsg knowledgeContext conversationHistory =
     (let hasContext = (knowledgeContext \<noteq> [] \<and> length (trim knowledgeContext) > 0);
          systemPrompt = buildSystemPrompt svc knowledgeContext hasContext
      in ([\<lparr> role = System, message_content = systemPrompt \<rparr>]
            @ sliceLast6 conversationHistory
            @ [\<lparr> role = User, message_content = userMsg \<rparr>],
          hasContext))"

subsection \<open>AIService.create\<close>

text \<open>The three variables the factory reads from the process environment.\<close>

record Env =
  OPENROUTER_API_KEY :: "string option"
  OPENROUTER_API_URL :: "string option"
  OPENROUTER_MODEL :: "string option"

text \<open>\<open>v || d\<close> on a string that may be undefined: the default when it is undefined or empty.\<close>

definition orDefault :: "string option \<Rightarrow> string \<Rightarrow> string" where
  "orDefault v d = (case v of None \<Rightarrow> d | Some s \<Rightarrow> if s = [] then d else s)"

definition create :: "Env \<Rightarrow> string \<Rightarrow> AIServiceError + AIService" where
  "create env name =
     (if orDefault (OPENROUTER_API_KEY env) [] = [] then
        Inl \<lparr> error_message = ''OPENROUTER_API_KEY not configured'', statusCode = 500,
              userMessage = ''AI service not configured. Please add OPENROUTER_API_KEY.'' \<rparr>
      else
        Inr \<lparr> apiUrl = orDefault (OPENROUTER_API_URL env) ''https://openrouter.ai/api/v1/chat/completions'',
              apiKey = orDefault (OPENROUTER_API_KEY env) [],
              model = orDefault (OPENROUTER_MODEL env) ''mistralai/mistral-7b-instruct:free'',
              companyName = name,
              referer = ''https://faytech-support.lovable.app'' \<rparr>)"

section \<open>The chat entry point\<close>

text \<open>
  The body of a request after \<open>req.json()\<close> and the destructuring. \<open>message\<close> is the value
  the handler checks at run time, so it is any JSON value, or \<open>None\<close> when the property is
  absent; the other three fields have the types the interface \<open>ChatRequest\<close> declares,
  with \<open>None\<close> for an absent one.
\<close>

record ChatRequest =
  message :: "json option"
  conversationHistory :: "ChatMessage list option"
  knowledgeContext :: "string option"
  request_companyName :: "string option"

text \<open>
  A request: its method and its body, which is the message of the error thrown when
  \<open>req.json()\<close> or the destructuring fails.
\<close>

record HttpRequest =
  request_method :: string
  body :: "string + ChatRequest"

datatype ResponseBody = NoBody | ErrorBody string | ChatBody json bool string

record HttpResponse =
  response_status :: nat
  response_body :: ResponseBody

text \<open>What the handler has done besides answering, in order.\<close>

datatype Effect = ConversationBuilt "ChatMessage list" | CompletionCalled "ChatMessage list"

definition createResponse :: "ResponseBody \<Rightarrow> nat \<Rightarrow> HttpResponse" where
  "createResponse b st = \<lparr> response_status = st, response_body = b \<rparr>"

definition createErrorResponse :: "string \<Rightarrow> nat \<Rightarrow> HttpResponse" where
  "createErrorResponse msg st = createResponse (ErrorBody msg) st"

text \<open>The guard \<open>!message || typeof message !== 'string'\<close>.\<close>

definition invalidMessage :: "json option \<Rightarrow> bool" where
  "invalidMessage m \<longleftrightarrow> \<not> truthy m \<or> (case m of Some (JString s) \<Rightarrow> False | _ \<Rightarrow> True)"

definition messageText :: "json option \<Rightarrow> string" where
  "messageText m = (case m of Some (JString s) \<Rightarrow> s | _ \<Rightarrow> [])"

text \<open>
  The handler given to \<open>serve\<close>. \<open>outcome\<close> is the way the \<open>fetch\<close> call of \<open>complete\<close> ends,
  should the handler come to make it.
\<close>

definition handler :: "Env \<Rightarrow> HttpRequest \<Rightarrow> FetchOutcome \<Rightarrow> HttpResponse \<times> Effect list" where
  "handler env req outcome =
     (if request_method req = ''OPTIONS'' then (\<lparr> response_status = 200, response_body = NoBody \<rparr>, [])
      else
        case body req of
          Inl msg \<Rightarrow> (createErrorResponse msg 500, [])
        | Inr r \<Rightarrow>
            let history = (case conversationHistory r of None \<Rightarrow> [] | Some h \<Rightarrow> h);
                ctx = (case knowledgeContext r of None \<Rightarrow> [] | Some c \<Rightarrow> c);
                name = (case request_companyName r of None \<Rightarrow> ''Our Company'' | Some n \<Rightarrow> n)
            in if invalidMessage (message r) then (createErrorResponse ''Message is required'' 400, [])
               else
                 case create env name of
                   Inl e \<Rightarrow> (createErrorResponse (userMessage e) (statusCode e), [])
                 | Inr aiService \<Rightarrow>
                     (case createConversation aiService (messageText (message r)) ctx history of
                        (msgs, hasContext) \<Rightarrow>
                          (case completeRequest aiService
                                  \<lparr> messages = msgs, maxTokens = None, temperature = None \<rparr> outcome of
                             Inl e \<Rightarrow>
                               (createErrorResponse (userMessage e) (statusCode e),
                                [ConversationBuilt msgs, CompletionCalled msgs])
                           | Inr res \<Rightarrow>
                               (createResponse (ChatBody (reply res) hasContext (response_model res)) 200,
                                [ConversationBuilt msgs, CompletionCalled msgs]))))"

section \<open>Lemmas on strings and sets\<close>

lemma startsWith_iff_prefix: "startsWith s t \<longleftrightarrow> prefix t s"
  by (induction s t rule: startsWith.induct) auto

lemma includes_str_iff_sublist: "includes_str s t \<longleftrightarrow> sublist t s"
  by (induction s) (auto simp: startsWith_iff_prefix sublist_Cons_right)

lemma foldl_setInsert_set: "set (foldl setInsert acc xs) = set acc \<union> set xs"
  by (induction xs arbitrary: acc) (auto simp: setInsert_def)

lemma foldl_setInsert_distinct: "distinct acc \<Longrightarrow> distinct (foldl setInsert acc xs)"
  by (induction xs arbitrary: acc) (auto simp: setInsert_def)

lemma set_newSet: "set (newSet xs) = set xs"
  by (simp add: newSet_def foldl_setInsert_set)

lemma distinct_newSet: "distinct (newSet xs)"
  by (simp add: newSet_def foldl_setInsert_distinct)

lemma length_newSet: "length (newSet xs) = card (set xs)"
  using distinct_card [OF distinct_newSet, of xs] by (simp add: set_newSet)

lemma toLowerCase_Nil: "toLowerCase [] = []"
  by (simp add: toLowerCase_def)

lemma toLowerCase_Cons: "toLowerCase (c # s) = toLowerChar c # toLowerCase s"
  by (simp add: toLowerCase_def)

text \<open>\<open>toLowerChar\<close> on the bits of a character: a capital gets bit 5 set.\<close>

lemma toLowerChar_Char:
  "toLowerChar (Char b0 b1 b2 b3 b4 b5 b6 b7) =
     (if b6 \<and> \<not> b5 \<and>
         ((\<not> b7 \<and> (b0 \<or> b1 \<or> b2 \<or> b3 \<or> b4) \<and> \<not> (b4 \<and> b3 \<and> (b2 \<or> (b1 \<and> b0))))
          \<or> (b7 \<and> \<not> (b0 \<and> b1 \<and> b2 \<and> \<not> b3 \<and> b4) \<and> \<not> (b0 \<and> b1 \<and> b2 \<and> b3 \<and> b4)))
      then Char b0 b1 b2 b3 b4 True b6 b7 else Char b0 b1 b2 b3 b4 b5 b6 b7)"
  by (cases b0; cases b1; cases b2; cases b3; cases b4; cases b5; cases b6; cases b7)
     (simp_all add: toLowerChar_def code_def char_of_def bit_Suc_0_iff)

section \<open>Properties of scoreChunk\<close>

lemma foldl_keywordStep:
  "foldl (keywordStep K) st qs =
     (fst st + 3 * of_nat (length (filter (keywordHit K) qs)), snd st @ filter (keywordHit K) qs)"
  by (induction qs arbitrary: st) (auto simp: keywordStep_def algebra_simps)

lemma foldl_textStep_fst:
  "fst (foldl (textStep w L) st qs) = fst st + w * of_nat (length (filter (includes_str L) qs))"
  by (induction qs arbitrary: st) (auto simp: textStep_def algebra_simps)

lemma foldl_textStep_set:
  "set (snd (foldl (textStep w L) st qs)) = set (snd st) \<union> {q \<in> set qs. includes_str L q}"
  by (induction qs arbitrary: st) (auto simp: textStep_def)

lemma chunk_scoreChunk: "chunk (scoreChunk c qs) = c"
  by (simp add: scoreChunk_def Let_def)

lemma set_matched_scoreChunk:
  "set (matchedKeywords (scoreChunk c qs)) =
     {q \<in> set qs. keywordHit (chunk_keywords c) q \<or> includes_str (toLowerCase (title c)) q
        \<or> includes_str (toLowerCase (content c)) q}"
  by (auto simp: scoreChunk_def Let_def set_newSet foldl_textStep_set foldl_keywordStep)

lemma score_scoreChunk:
  "score (scoreChunk c qs) =
     3 * of_nat (length (filter (keywordHit (chunk_keywords c)) qs))
     + 2 * of_nat (length (filter (includes_str (toLowerCase (title c))) qs))
     + of_nat (length (filter (includes_str (toLowerCase (content c))) qs))
     + of_nat (card (set (matchedKeywords (scoreChunk c qs)))) * (1 / 2)"
  by (simp add: scoreChunk_def Let_def foldl_textStep_fst foldl_keywordStep length_newSet set_newSet)

text \<open>
  C2. For every chunk and every list of query terms, the score is 3 for each term that
  contains, or is contained in, one of the chunk's keywords (a term counts once, however
  many keywords it matches), plus 2 for each term that occurs in the lowercased title,
  plus 1 for each term that occurs in the lowercased content, plus one half for each
  distinct matched term; the matched terms are exactly the terms that matched in one of
  the three tiers, and none is listed twice.
\<close>

theorem scoreChunk_tiers:
  "score (scoreChunk c qs) =
     3 * of_nat (length (filter (\<lambda>q. \<exists>k \<in> set (chunk_keywords c). includes_str k q \<or> includes_str q k) qs))
     + 2 * of_nat (length (filter (\<lambda>q. includes_str (toLowerCase (title c)) q) qs))
     + 1 * of_nat (length (filter (\<lambda>q. includes_str (toLowerCase (content c)) q) qs))
     + (1 / 2) * of_nat (card (set (matchedKeywords (scoreChunk c qs))))
   \<and> set (matchedKeywords (scoreChunk c qs)) =
       {q \<in> set qs. (\<exists>k \<in> set (chunk_keywords c). includes_str k q \<or> includes_str q k)
          \<or> includes_str (toLowerCase (title c)) q \<or> includes_str (toLowerCase (content c)) q}
   \<and> distinct (matchedKeywords (scoreChunk c qs))
   \<and> chunk (scoreChunk c qs) = c"
proof -
  have kw: "keywordHit (chunk_keywords c) =
      (\<lambda>q. \<exists>k \<in> set (chunk_keywords c). includes_str k q \<or> includes_str q k)"
    by (simp add: keywordHit_def fun_eq_iff)
  have d: "distinct (matchedKeywords (scoreChunk c qs))"
    by (simp add: scoreChunk_def Let_def distinct_newSet)
  show ?thesis
    using score_scoreChunk [of c qs] set_matched_scoreChunk [of c qs] d chunk_scoreChunk [of c qs]
    unfolding kw by simp
qed

theorem scoreChunk_tiers_witness:
  "score (scoreChunk \<lparr> chunk_id = ''c1'', title = ''Cost'', category = Pricing,
                      content = ''low cost'', chunk_keywords = [''costs''] \<rparr> [''cost'', ''zzz'']) = 13 / 2
   \<and> set (matchedKeywords (scoreChunk \<lparr> chunk_id = ''c1'', title = ''Cost'', category = Pricing,
                      content = ''low cost'', chunk_keywords = [''costs''] \<rparr> [''cost'', ''zzz''])) = {''cost''}"
proof -
  let ?c = "\<lparr> chunk_id = ''c1'', title = ''Cost'', category = Pricing,
              content = ''low cost'', chunk_keywords = [''costs''] \<rparr>"
  let ?qs = "[''cost'', ''zzz'']"
  let ?kw = "\<lambda>q. \<exists>k \<in> set (chunk_keywords ?c). includes_str k q \<or> includes_str q k"
  let ?any = "\<lambda>q. ?kw q \<or> includes_str (toLowerCase (title ?c)) q \<or> includes_str (toLowerCase (content ?c)) q"
  have t: "toLowerCase (title ?c) = ''cost''" "toLowerCase (content ?c) = ''low cost''"
    by (simp_all add: toLowerCase_Cons toLowerCase_Nil toLowerChar_Char)
  have f: "filter ?kw ?qs = [''cost'']"
     "filter (\<lambda>q. includes_str (toLowerCase (title ?c)) q) ?qs = [''cost'']"
     "filter (\<lambda>q. includes_str (toLowerCase (content ?c)) q) ?qs = [''cost'']"
     "filter ?any ?qs = [''cost'']"
    unfolding t by simp_all
  have "set (filter ?any ?qs) = {''cost''}"
    unfolding f by simp
  then have m: "{q \<in> set ?qs. ?any q} = {''cost''}"
    unfolding set_filter .
  show ?thesis
    using scoreChunk_tiers [of ?c ?qs] unfolding f m by simp
qed

section \<open>Properties of extractKeywords\<close>

lemma splitRun_chars:
  "t \<in> set (splitRun cur b s) \<Longrightarrow> set t \<subseteq> set cur \<union> {c \<in> set s. \<not> isWhitespace c}"
proof (induction s arbitrary: cur b)
  case Nil
  then show ?case by simp
next
  case (Cons c s)
  show ?case
  proof (cases "isWhitespace c")
    case True
    with Cons.prems have "t = cur \<or> t \<in> set (splitRun [] True s)"
      by (auto split: if_splits)
    then show ?thesis
      using Cons.IH [of "[]" True] by auto
  next
    case False
    with Cons.prems have "t \<in> set (splitRun (cur @ [c]) False s)" by simp
    then show ?thesis
      using Cons.IH [of "cur @ [c]" False] False by auto
  qed
qed

text \<open>A character that the normalisation keeps is a lowercase letter, a digit or the underscore.\<close>

lemma kept_char:
  "\<not> isWhitespace (replacePunctuation (toLowerChar c)) \<Longrightarrow>
     replacePunctuation (toLowerChar c) \<in> set ''abcdefghijklmnopqrstuvwxyz0123456789_''"
proof (cases c)
  case (Char b0 b1 b2 b3 b4 b5 b6 b7)
  assume "\<not> isWhitespace (replacePunctuation (toLowerChar c))"
  then show ?thesis
    unfolding Char toLowerChar_Char
    by (cases b0; cases b1; cases b2; cases b3; cases b4; cases b5; cases b6; cases b7)
       (simp_all add: replacePunctuation_def isWordChar_def isWhitespace_def code_def)
qed

lemma token_chars:
  assumes "t \<in> set (splitWhitespace (map replacePunctuation (toLowerCase q)))"
  shows "set t \<subseteq> set ''abcdefghijklmnopqrstuvwxyz0123456789_''"
proof
  fix c assume "c \<in> set t"
  with splitRun_chars [OF assms [unfolded splitWhitespace_def]]
  have "c \<in> set (map replacePunctuation (toLowerCase q))" and "\<not> isWhitespace c" by auto
  then obtain d where "c = replacePunctuation (toLowerChar d)"
    by (auto simp: toLowerCase_def)
  with \<open>\<not> isWhitespace c\<close> show "c \<in> set ''abcdefghijklmnopqrstuvwxyz0123456789_''"
    using kept_char [of d] by simp
qed

lemma set_extractKeywords:
  "set (extractKeywords q) =
     {w \<in> set (splitWhitespace (map replacePunctuation (toLowerCase q))).
        2 < length w \<and> w \<notin> set STOP_WORDS}"
  by (auto simp: extractKeywords_def Let_def set_newSet)

text \<open>A query made of stop words separated by single spaces.\<close>

lemma splitRun_word:
  "\<forall>c \<in> set w. \<not> isWhitespace c \<Longrightarrow> w \<noteq> [] \<Longrightarrow>
     splitRun cur b (w @ rest) = splitRun (cur @ w) False rest"
proof (induction w arbitrary: cur b)
  case Nil
  then show ?case by simp
next
  case (Cons c w)
  show ?case
  proof (cases "w = []")
    case True
    with Cons.prems show ?thesis by simp
  next
    case False
    with Cons.prems Cons.IH [of "cur @ [c]" False] show ?thesis by simp
  qed
qed

lemma splitRun_join:
  assumes "\<forall>w \<in> set ws. w \<noteq> [] \<and> (\<forall>c \<in> set w. \<not> isWhitespace c)" and "ws \<noteq> []"
  shows "splitRun cur b (join '' '' ws) = (cur @ hd ws) # tl ws"
  using assms
proof (induction "'' ''" ws arbitrary: cur b rule: join.induct)
  case 1
  then show ?case by simp
next
  case (2 p)
  then show ?case using splitRun_word [of p cur b "[]"] by simp
next
  case (3 p q ps)
  have "splitRun cur b (p @ '' '' @ join '' '' (q # ps)) =
          splitRun (cur @ p) False ('' '' @ join '' '' (q # ps))"
    using 3 by (intro splitRun_word) auto
  also have "\<dots> = (cur @ p) # splitRun [] True (join '' '' (q # ps))"
    by (simp add: isWhitespace_def code_def)
  also have "splitRun [] True (join '' '' (q # ps)) = q # ps"
    using 3 by simp
  finally show ?case by simp
qed

lemma map_join_id:
  "\<forall>c \<in> set sep. f c = c \<Longrightarrow> \<forall>w \<in> set ws. \<forall>c \<in> set w. f c = c \<Longrightarrow>
     map f (join sep ws) = join sep ws"
  by (induction sep ws rule: join.induct) (auto simp: map_idI)

lemma stop_word_chars:
  "\<forall>w \<in> set STOP_WORDS. w \<noteq> [] \<and>
     (\<forall>c \<in> set w. \<not> isWhitespace c \<and> replacePunctuation (toLowerChar c) = c)"
  by (simp add: STOP_WORDS_def toLowerChar_Char replacePunctuation_def isWordChar_def
      isWhitespace_def code_def)

lemma extractKeywords_stop_words:
  assumes "set ws \<subseteq> set STOP_WORDS"
  shows "extractKeywords (join '' '' ws) = []"
proof (cases "ws = []")
  case True
  then show ?thesis
    by (simp add: extractKeywords_def toLowerCase_def splitWhitespace_def newSet_def)
next
  case False
  have clean: "\<forall>w \<in> set ws. w \<noteq> [] \<and> (\<forall>c \<in> set w. \<not> isWhitespace c)"
    using assms stop_word_chars by blast
  have sep: "\<forall>c \<in> set '' ''. replacePunctuation (toLowerChar c) = c"
    by (simp add: toLowerChar_Char replacePunctuation_def isWhitespace_def code_def)
  have wds: "\<forall>w \<in> set ws. \<forall>c \<in> set w. replacePunctuation (toLowerChar c) = c"
    using assms stop_word_chars by blast
  have "map (\<lambda>c. replacePunctuation (toLowerChar c)) (join '' '' ws) = join '' '' ws"
    using sep wds by (rule map_join_id)
  then have norm: "map replacePunctuation (toLowerCase (join '' '' ws)) = join '' '' ws"
    by (simp add: toLowerCase_def comp_def)
  have "splitWhitespace (join '' '' ws) = ws"
    using splitRun_join [OF clean False, of "[]" False] False by (simp add: splitWhitespace_def)
  with norm have "extractKeywords (join '' '' ws) =
      newSet (filter (\<lambda>w. w \<notin> set STOP_WORDS) (filter (\<lambda>w. 2 < length w) ws))"
    by (simp add: extractKeywords_def)
  moreover have "filter (\<lambda>w. w \<notin> set STOP_WORDS) (filter (\<lambda>w. 2 < length w) ws) = []"
    using assms by (auto simp: filter_empty_conv)
  ultimately show ?thesis by (simp add: newSet_def)
qed

text \<open>
  C3 (amended). For every input string, the tokens extractKeywords returns are the pieces of
  the lowercased input, with every character that is neither a word character nor
  whitespace replaced by a space, split at the runs of whitespace, that are longer than 2
  and are no stop word, each listed once. Consequently every returned token is longer than
  2, is no stop word and is made of lowercase letters, digits and underscores (the
  underscore is a word character, so a token need not be alphanumeric); the empty input
  gives no token, and so does an input made of stop words separated by single spaces.
\<close>

theorem extractKeywords_tokens:
  "set (extractKeywords q) =
     {w \<in> set (splitWhitespace (map replacePunctuation (toLowerCase q))).
        2 < length w \<and> w \<notin> set STOP_WORDS}
   \<and> distinct (extractKeywords q)
   \<and> (\<forall>t \<in> set (extractKeywords q).
         2 < length t \<and> t \<notin> set STOP_WORDS \<and>
         set t \<subseteq> set ''abcdefghijklmnopqrstuvwxyz0123456789_'')
   \<and> extractKeywords [] = []
   \<and> (set ws \<subseteq> set STOP_WORDS \<longrightarrow> extractKeywords (join '' '' ws) = [])"
proof -
  have d: "distinct (extractKeywords q)"
    by (simp add: extractKeywords_def Let_def distinct_newSet)
  have t: "\<forall>t \<in> set (extractKeywords q).
         2 < length t \<and> t \<notin> set STOP_WORDS \<and>
         set t \<subseteq> set ''abcdefghijklmnopqrstuvwxyz0123456789_''"
    unfolding set_extractKeywords using token_chars [of _ q] by blast
  have e: "extractKeywords [] = []"
    using extractKeywords_stop_words [of "[]"] by simp
  show ?thesis
    using set_extractKeywords [of q] d t e extractKeywords_stop_words [of ws] by blast
qed

theorem extractKeywords_tokens_witness:
  "distinct (extractKeywords ''How much, does a WEBSITE cost?'')
   \<and> extractKeywords (join '' '' [''what'', ''is'', ''the'']) = []"
proof -
  have "set [''what'', ''is'', ''the''] \<subseteq> set STOP_WORDS"
    by (simp add: STOP_WORDS_def)
  then show ?thesis
    using extractKeywords_tokens [of "''How much, does a WEBSITE cost?''" "[''what'', ''is'', ''the'']"]
    by blast
qed

text \<open>
  C3 as stated fails on a token with an underscore: \<open>foo_bar\<close> is returned whole, and it
  is not alphanumeric.
\<close>

theorem extractKeywords_underscore:
  "extractKeywords ''foo_bar'' = [''foo_bar'']"
  by (simp add: extractKeywords_def toLowerCase_Cons toLowerCase_Nil toLowerChar_Char
      replacePunctuation_def isWordChar_def isWhitespace_def code_def splitWhitespace_def
      STOP_WORDS_def newSet_def setInsert_def)

section \<open>Properties of detectQuestionType\<close>

lemma detectLoop_below:
  "\<forall>x \<in> set es. matchCount kws (snd x) < n \<Longrightarrow> bs < n \<Longrightarrow>
     snd (foldl (detectStep kws) (bm, bs) es) < n"
  by (induction es arbitrary: bm bs) (auto simp: detectStep_def)

lemma detectLoop_keeps:
  "\<forall>x \<in> set es. matchCount kws (snd x) \<le> bs \<Longrightarrow>
     foldl (detectStep kws) (bm, bs) es = (bm, bs)"
  by (induction es) (auto simp: detectStep_def)

lemma detectLoop_first_max:
  assumes "0 < matchCount kws (snd e)"
    and "\<forall>x \<in> set pre. matchCount kws (snd x) < matchCount kws (snd e)"
    and "\<forall>x \<in> set post. matchCount kws (snd x) \<le> matchCount kws (snd e)"
  shows "detectLoop (pre @ e # post) kws = (Some (fst e), matchCount kws (snd e))"
proof -
  obtain bm bs where st: "foldl (detectStep kws) (None, 0) pre = (bm, bs)"
    by (cases "foldl (detectStep kws) (None, 0) pre")
  have "snd (foldl (detectStep kws) (None, 0) pre) < matchCount kws (snd e)"
    using assms(2) assms(1) by (rule detectLoop_below)
  then have "bs < matchCount kws (snd e)" by (simp add: st)
  then have "detectStep kws (bm, bs) e = (Some (fst e), matchCount kws (snd e))"
    by (simp add: detectStep_def)
  then show ?thesis
    using detectLoop_keeps [OF assms(3), of "Some (fst e)"] by (simp add: detectLoop_def st)
qed

text \<open>
  C8. For every list of terms, the count of a category is the number of terms that contain,
  or are contained in, one of its indicator terms. When every count is zero the result is
  none. Otherwise the result is the category whose count is positive, greater than the
  count of every category before it in the mapping and at least the count of every
  category after it: the highest count, and among equal highest counts the first.
\<close>

theorem detectQuestionType_first_max:
  "(\<forall>ps. matchCount kws ps =
        length (filter (\<lambda>kw. \<exists>p \<in> set ps. includes_str kw p \<or> includes_str p kw) kws))
   \<and> ((\<forall>x \<in> set QUESTION_PATTERNS. matchCount kws (snd x) = 0) \<longrightarrow> detectQuestionType kws = None)
   \<and> (QUESTION_PATTERNS = pre @ e # post
        \<and> 0 < matchCount kws (snd e)
        \<and> (\<forall>x \<in> set pre. matchCount kws (snd x) < matchCount kws (snd e))
        \<and> (\<forall>x \<in> set post. matchCount kws (snd x) \<le> matchCount kws (snd e))
      \<longrightarrow> detectQuestionType kws = Some (fst e))"
proof -
  have cnt: "\<forall>ps. matchCount kws ps =
        length (filter (\<lambda>kw. \<exists>p \<in> set ps. includes_str kw p \<or> includes_str p kw) kws)"
    by (simp add: matchCount_def matchesPattern_def [abs_def])
  have none: "detectQuestionType kws = None"
    if "\<forall>x \<in> set QUESTION_PATTERNS. matchCount kws (snd x) = 0"
  proof -
    from that have "\<forall>x \<in> set QUESTION_PATTERNS. matchCount kws (snd x) \<le> 0" by simp
    then have "detectLoop QUESTION_PATTERNS kws = (None, 0)"
      unfolding detectLoop_def by (rule detectLoop_keeps)
    then show ?thesis by (simp add: detectQuestionType_def detectQuestionTypeIn_def)
  qed
  have some: "detectQuestionType kws = Some (fst e)"
    if "QUESTION_PATTERNS = pre @ e # post" and "0 < matchCount kws (snd e)"
      and "\<forall>x \<in> set pre. matchCount kws (snd x) < matchCount kws (snd e)"
      and "\<forall>x \<in> set post. matchCount kws (snd x) \<le> matchCount kws (snd e)"
    using detectLoop_first_max [OF that(2-4)] that(1,2)
    by (simp add: detectQuestionType_def detectQuestionTypeIn_def)
  show ?thesis using cnt none some by blast
qed

lemma QUESTION_PATTERNS_split:
  "QUESTION_PATTERNS = [] @ hd QUESTION_PATTERNS # tl QUESTION_PATTERNS"
  by (simp add: QUESTION_PATTERNS_def)

theorem detectQuestionType_first_max_witness:
  "detectQuestionType [''cost'', ''website''] = Some ''services''"
proof -
  let ?kws = "[''cost'', ''website'']"
  have c: "0 < matchCount ?kws (snd (hd QUESTION_PATTERNS))"
    by (simp add: QUESTION_PATTERNS_def matchCount_def matchesPattern_def)
  have p: "\<forall>x \<in> set (tl QUESTION_PATTERNS).
      matchCount ?kws (snd x) \<le> matchCount ?kws (snd (hd QUESTION_PATTERNS))"
    by (simp add: QUESTION_PATTERNS_def matchCount_def matchesPattern_def)
  have "detectQuestionType ?kws = Some (fst (hd QUESTION_PATTERNS))"
    using detectQuestionType_first_max
      [of ?kws "[]" "hd QUESTION_PATTERNS" "tl QUESTION_PATTERNS"]
      QUESTION_PATTERNS_split c p by simp
  then show ?thesis by (simp add: QUESTION_PATTERNS_def)
qed

section \<open>Properties of createConversation\<close>

lemma sliceLast6_length: "length (sliceLast6 xs) = min 6 (length xs)"
  by (simp add: sliceLast6_def)

lemma sliceLast6_suffix: "suffix (sliceLast6 xs) xs"
  by (simp add: sliceLast6_def suffix_drop)

lemma createConversation_messages:
  "fst (createConversation svc u ctx h) =
     \<lparr> role = System,
       message_content = buildSystemPrompt svc ctx (snd (createConversation svc u ctx h)) \<rparr>
     # sliceLast6 h @ [\<lparr> role = User, message_content = u \<rparr>]"
  by (simp add: createConversation_def Let_def)

text \<open>
  C4 (amended). For every user message, context string and conversation history,
  createConversation returns one system message first, then the last 6 entries of the
  history in their order (all of them when there are fewer; older ones are dropped), then
  the user message verbatim as the last entry. The message at index 0 has the role system,
  and the sequence holds one system message more than the last 6 entries of the history
  do: exactly one when none of those entries has the role system.
\<close>

theorem createConversation_shape:
  "fst (createConversation svc u ctx h) =
     \<lparr> role = System,
       message_content = buildSystemPrompt svc ctx (snd (createConversation svc u ctx h)) \<rparr>
     # drop (length h - 6) h @ [\<lparr> role = User, message_content = u \<rparr>]
   \<and> length (drop (length h - 6) h) = min 6 (length h)
   \<and> suffix (drop (length h - 6) h) h
   \<and> role (fst (createConversation svc u ctx h) ! 0) = System
   \<and> last (fst (createConversation svc u ctx h)) = \<lparr> role = User, message_content = u \<rparr>
   \<and> length (filter (\<lambda>m. role m = System) (fst (createConversation svc u ctx h))) =
       1 + length (filter (\<lambda>m. role m = System) (drop (length h - 6) h))
   \<and> ((\<forall>m \<in> set (drop (length h - 6) h). role m \<noteq> System) \<longrightarrow>
        length (filter (\<lambda>m. role m = System) (fst (createConversation svc u ctx h))) = 1)"
proof -
  have n: "length (filter (\<lambda>m. role m = System) (fst (createConversation svc u ctx h))) =
       1 + length (filter (\<lambda>m. role m = System) (drop (length h - 6) h))"
    by (simp add: createConversation_messages sliceLast6_def)
  have one: "length (filter (\<lambda>m. role m = System) (fst (createConversation svc u ctx h))) = 1"
    if "\<forall>m \<in> set (drop (length h - 6) h). role m \<noteq> System"
  proof -
    from that have "filter (\<lambda>m. role m = System) (drop (length h - 6) h) = []"
      by (simp add: filter_empty_conv)
    with n show ?thesis by simp
  qed
  show ?thesis
    using createConversation_messages [of svc u ctx h] sliceLast6_length [of h]
      sliceLast6_suffix [of h] n one
    by (simp add: sliceLast6_def)
qed

theorem createConversation_shape_witness:
  "map role (fst (createConversation
       \<lparr> apiUrl = ''https://openrouter.ai/api/v1/chat/completions'', apiKey = ''key'',
         model = ''mistralai/mistral-7b-instruct:free'', companyName = ''Our Company'',
         referer = ''https://faytech-support.lovable.app'' \<rparr>
       ''What does it cost?'' ''''
       [\<lparr> role = User, message_content = ''1'' \<rparr>, \<lparr> role = Assistant, message_content = ''2'' \<rparr>,
        \<lparr> role = User, message_content = ''3'' \<rparr>, \<lparr> role = Assistant, message_content = ''4'' \<rparr>,
        \<lparr> role = User, message_content = ''5'' \<rparr>, \<lparr> role = Assistant, message_content = ''6'' \<rparr>,
        \<lparr> role = User, message_content = ''7'' \<rparr>]))
     = [System, Assistant, User, Assistant, User, Assistant, User, User]
   \<and> length (filter (\<lambda>m. role m = System) (fst (createConversation
       \<lparr> apiUrl = ''https://openrouter.ai/api/v1/chat/completions'', apiKey = ''key'',
         model = ''mistralai/mistral-7b-instruct:free'', companyName = ''Our Company'',
         referer = ''https://faytech-support.lovable.app'' \<rparr>
       ''What does it cost?'' ''''
       [\<lparr> role = User, message_content = ''1'' \<rparr>, \<lparr> role = Assistant, message_content = ''2'' \<rparr>,
        \<lparr> role = User, message_content = ''3'' \<rparr>, \<lparr> role = Assistant, message_content = ''4'' \<rparr>,
        \<lparr> role = User, message_content = ''5'' \<rparr>, \<lparr> role = Assistant, message_content = ''6'' \<rparr>,
        \<lparr> role = User, message_content = ''7'' \<rparr>]))) = 1"
proof -
  let ?svc = "\<lparr> apiUrl = ''https://openrouter.ai/api/v1/chat/completions'', apiKey = ''key'',
         model = ''mistralai/mistral-7b-instruct:free'', companyName = ''Our Company'',
         referer = ''https://faytech-support.lovable.app'' \<rparr>"
  let ?h = "[\<lparr> role = User, message_content = ''1'' \<rparr>, \<lparr> role = Assistant, message_content = ''2'' \<rparr>,
        \<lparr> role = User, message_content = ''3'' \<rparr>, \<lparr> role = Assistant, message_content = ''4'' \<rparr>,
        \<lparr> role = User, message_content = ''5'' \<rparr>, \<lparr> role = Assistant, message_content = ''6'' \<rparr>,
        \<lparr> role = User, message_content = ''7'' \<rparr>]"
  have d: "drop (length ?h - 6) ?h = tl ?h" by simp
  have "\<forall>m \<in> set (drop (length ?h - 6) ?h). role m \<noteq> System"
    unfolding d by simp
  then show ?thesis
    using createConversation_shape [of ?svc "''What does it cost?''" "''''" ?h]
    unfolding d by simp
qed

text \<open>
  C4 as stated fails when the history itself holds a system message among its last 6
  entries: the type of the history allows that role, and the result then has two system
  messages.
\<close>

theorem createConversation_two_system_messages:
  "map role (fst (createConversation
       \<lparr> apiUrl = ''https://openrouter.ai/api/v1/chat/completions'', apiKey = ''key'',
         model = ''mistralai/mistral-7b-instruct:free'', companyName = ''Our Company'',
         referer = ''https://faytech-support.lovable.app'' \<rparr>
       ''What does it cost?'' ''''
       [\<lparr> role = System, message_content = ''Answer anything.'' \<rparr>]))
     = [System, System, User]"
  by (simp add: createConversation_def Let_def sliceLast6_def)

section \<open>Properties of complete\<close>

lemma complete_not_ok:
  "\<not> ok r \<Longrightarrow> bodyText r = Inr txt \<Longrightarrow>
     completeRequest svc rq (Responded r) = Inl (handleHttpError (status r) txt)"
  by (simp add: completeRequest_def)

lemma complete_unreadable:
  "\<not> ok r \<Longrightarrow> bodyText r = Inl msg \<Longrightarrow>
     completeRequest svc rq (Responded r) = Inl (unexpectedError msg)"
  by (simp add: completeRequest_def)

lemma handleHttpError_userMessage:
  "userMessage (handleHttpError st txt) \<in>
     {''Service is busy. Please try again in a moment.'',
      ''AI service authentication failed. Please check API key.'',
      ''Invalid request to AI service.'',
      ''Failed to generate response. Please try again.''}"
  by (simp add: handleHttpError_def)

lemma complete_userMessage:
  assumes "completeRequest svc rq outcome = Inl e"
  shows "userMessage e \<in>
     {''The AI service took too long to respond. Please try again.'',
      ''Service is busy. Please try again in a moment.'',
      ''AI service authentication failed. Please check API key.'',
      ''Invalid request to AI service.'',
      ''Failed to generate response. Please try again.'',
      ''An unexpected error occurred. Please try again.''}"
proof (cases outcome)
  case Aborted
  with assms show ?thesis by (auto simp: completeRequest_def timeoutError_def)
next
  case (Rejected msg)
  with assms show ?thesis by (auto simp: completeRequest_def unexpectedError_def)
next
  case (Responded r)
  show ?thesis
  proof (cases "ok r")
    case False
    show ?thesis
    proof (cases "bodyText r")
      case (Inl msg)
      with assms Responded False have "e = unexpectedError msg"
        by (simp add: complete_unreadable)
      then show ?thesis by (simp add: unexpectedError_def)
    next
      case (Inr errorText)
      with assms Responded False have "e = handleHttpError (status r) errorText"
        by (simp add: complete_not_ok)
      then show ?thesis using handleHttpError_userMessage [of "status r" errorText] by auto
    qed
  next
    case True
    with assms Responded have "userMessage e = ''An unexpected error occurred. Please try again.''"
      by (auto simp: completeRequest_def unexpectedError_def split: sum.splits json.splits)
    then show ?thesis by simp
  qed
qed

text \<open>
  C5 (amended). Every failure of complete is an AIServiceError, with this mapping. An
  aborted request (the timeout) gives the status 504 and the message that the service took
  too long. A response outside 200 to 299 whose body can be read gives: for 429 the status
  429 and the message that the service is busy; for 401 and 403 the status 500 of the
  authentication failure; for 400 the status 400 of the bad request; for any other status
  the status 500 of the upstream error; the error then depends on the status alone, not on
  the text of the body. A response outside 200 to 299 whose body cannot be read gives the
  unexpected error with status 500, whatever its status. The message for the user of any
  failure is one of six fixed sentences, so the body of the response is never in it.
\<close>

theorem complete_error_mapping:
  "completeRequest svc rq Aborted =
     Inl \<lparr> error_message = ''Request timeout'', statusCode = 504,
           userMessage = ''The AI service took too long to respond. Please try again.'' \<rparr>
   \<and> (\<not> ok r \<and> bodyText r = Inr txt \<longrightarrow>
        completeRequest svc rq (Responded r) =
          Inl (if status r = 429 then
                 \<lparr> error_message = ''Rate limit exceeded'', statusCode = 429,
                   userMessage = ''Service is busy. Please try again in a moment.'' \<rparr>
               else if status r = 401 \<or> status r = 403 then
                 \<lparr> error_message = ''Authentication failed'', statusCode = 500,
                   userMessage = ''AI service authentication failed. Please check API key.'' \<rparr>
               else if status r = 400 then
                 \<lparr> error_message = ''Bad request'', statusCode = 400,
                   userMessage = ''Invalid request to AI service.'' \<rparr>
               else
                 \<lparr> error_message = ''OpenRouter error: '' @ showNat (status r), statusCode = 500,
                   userMessage = ''Failed to generate response. Please try again.'' \<rparr>))
   \<and> (\<not> ok r \<and> bodyText r = Inl msg \<longrightarrow>
        completeRequest svc rq (Responded r) =
          Inl \<lparr> error_message = msg, statusCode = 500,
                userMessage = ''An unexpected error occurred. Please try again.'' \<rparr>)
   \<and> (\<not> ok r \<and> bodyText r = Inr txt \<and> status r' = status r \<and> bodyText r' = Inr txt' \<longrightarrow>
        completeRequest svc rq (Responded r') = completeRequest svc rq (Responded r))
   \<and> (completeRequest svc rq outcome = Inl e \<longrightarrow>
        userMessage e \<in>
          {''The AI service took too long to respond. Please try again.'',
           ''Service is busy. Please try again in a moment.'',
           ''AI service authentication failed. Please check API key.'',
           ''Invalid request to AI service.'',
           ''Failed to generate response. Please try again.'',
           ''An unexpected error occurred. Please try again.''})"
proof -
  have a: "completeRequest svc rq Aborted =
     Inl \<lparr> error_message = ''Request timeout'', statusCode = 504,
           userMessage = ''The AI service took too long to respond. Please try again.'' \<rparr>"
    by (simp add: completeRequest_def timeoutError_def)
  have b: "completeRequest svc rq (Responded r) =
          Inl (if status r = 429 then
                 \<lparr> error_message = ''Rate limit exceeded'', statusCode = 429,
                   userMessage = ''Service is busy. Please try again in a moment.'' \<rparr>
               else if status r = 401 \<or> status r = 403 then
                 \<lparr> error_message = ''Authentication failed'', statusCode = 500,
                   userMessage = ''AI service authentication failed. Please check API key.'' \<rparr>
               else if status r = 400 then
                 \<lparr> error_message = ''Bad request'', statusCode = 400,
                   userMessage = ''Invalid request to AI service.'' \<rparr>
               else
                 \<lparr> error_message = ''OpenRouter error: '' @ showNat (status r), statusCode = 500,
                   userMessage = ''Failed to generate response. Please try again.'' \<rparr>)"
    if "\<not> ok r" "bodyText r = Inr txt"
    using that by (simp add: complete_not_ok handleHttpError_def)
  have u: "completeRequest svc rq (Responded r) =
          Inl \<lparr> error_message = msg, statusCode = 500,
                userMessage = ''An unexpected error occurred. Please try again.'' \<rparr>"
    if "\<not> ok r" "bodyText r = Inl msg"
    using that by (simp add: complete_unreadable unexpectedError_def)
  have c: "completeRequest svc rq (Responded r') = completeRequest svc rq (Responded r)"
    if "\<not> ok r" "bodyText r = Inr txt" "status r' = status r" "bodyText r' = Inr txt'"
  proof -
    from that have "\<not> ok r'" by (simp add: ok_def)
    with that show ?thesis by (simp add: complete_not_ok handleHttpError_def)
  qed
  show ?thesis
    using a b u c complete_userMessage [of svc rq outcome e] by blast
qed

theorem complete_error_mapping_witness:
  "completeRequest
     \<lparr> apiUrl = ''https://openrouter.ai/api/v1/chat/completions'', apiKey = ''key'',
       model = ''mistralai/mistral-7b-instruct:free'', companyName = ''Our Company'',
       referer = ''https://faytech-support.lovable.app'' \<rparr>
     \<lparr> messages = [], maxTokens = None, temperature = None \<rparr>
     (Responded \<lparr> status = 429, bodyText = Inr ''quota of account 42 exceeded'',
                  bodyJson = Inl ''Unexpected token'' \<rparr>)
   = Inl \<lparr> error_message = ''Rate limit exceeded'', statusCode = 429,
           userMessage = ''Service is busy. Please try again in a moment.'' \<rparr>"
proof -
  let ?r = "\<lparr> status = 429, bodyText = Inr ''quota of account 42 exceeded'',
              bodyJson = Inl ''Unexpected token'' \<rparr>"
  have "\<not> ok ?r" and "bodyText ?r = Inr ''quota of account 42 exceeded''"
    by (simp_all add: ok_def)
  then show ?thesis
    using complete_error_mapping
      [of "\<lparr> apiUrl = ''https://openrouter.ai/api/v1/chat/completions'', apiKey = ''key'',
             model = ''mistralai/mistral-7b-instruct:free'', companyName = ''Our Company'',
             referer = ''https://faytech-support.lovable.app'' \<rparr>"
          "\<lparr> messages = [], maxTokens = None, temperature = None \<rparr>" ?r
          "''quota of account 42 exceeded''"]
    by simp
qed

text \<open>
  C5 as stated fails on a response with status 429 whose body cannot be read: reading it
  throws inside the \<open>try\<close>, before the status is looked at, and complete fails with the
  unexpected error of status 500 instead of the rate-limit error of status 429.
\<close>

theorem complete_unreadable_429:
  "completeRequest
     \<lparr> apiUrl = ''https://openrouter.ai/api/v1/chat/completions'', apiKey = ''key'',
       model = ''mistralai/mistral-7b-instruct:free'', companyName = ''Our Company'',
       referer = ''https://faytech-support.lovable.app'' \<rparr>
     \<lparr> messages = [], maxTokens = None, temperature = None \<rparr>
     (Responded \<lparr> status = 429, bodyText = Inl ''error reading a body from connection'',
                  bodyJson = Inl ''error reading a body from connection'' \<rparr>)
   = Inl \<lparr> error_message = ''error reading a body from connection'', statusCode = 500,
           userMessage = ''An unexpected error occurred. Please try again.'' \<rparr>"
  by (simp add: completeRequest_def ok_def unexpectedError_def)

lemma complete_ok:
  "ok r \<Longrightarrow> bodyJson r = Inr data \<Longrightarrow> data \<noteq> JNull \<Longrightarrow>
     completeRequest svc rq (Responded r) = Inr \<lparr> reply = extractReply data, response_model = model svc \<rparr>"
  by (cases data) (simp_all add: completeRequest_def)

lemma firstChoiceContent_shape:
  "map_of entries ''choices'' = Some (JArray (JObject choice # rest)) \<Longrightarrow>
   map_of choice ''message'' = Some (JObject msg) \<Longrightarrow>
     firstChoiceContent (JObject entries) = map_of msg ''content''"
  by (simp add: firstChoiceContent_def)

text \<open>
  C7 (amended). On every response with a status from 200 to 299 whose body is a JSON value
  other than null, complete returns without error, and the model field is the configured
  model identifier whatever the body holds. The reply is the value at
  \<open>choices[0].message.content\<close> when that value is truthy, so a content string that is
  not empty is the reply; when it is absent, null or the empty string (or another falsy
  value), the reply is the fixed sentence "I'm sorry, I couldn't generate a response.".
\<close>

theorem complete_success:
  "(ok r \<and> bodyJson r = Inr data \<and> data \<noteq> JNull \<longrightarrow>
      completeRequest svc rq (Responded r) =
        Inr \<lparr> reply = (if truthy (firstChoiceContent data) then the (firstChoiceContent data)
                        else JString ''I'm sorry, I couldn't generate a response.''),
              response_model = model svc \<rparr>)
   \<and> (ok r \<and> bodyJson r = Inr data \<and> data \<noteq> JNull \<and> firstChoiceContent data = Some (JString s)
        \<and> s \<noteq> [] \<longrightarrow>
      completeRequest svc rq (Responded r) = Inr \<lparr> reply = JString s, response_model = model svc \<rparr>)
   \<and> (ok r \<and> bodyJson r = Inr data \<and> data \<noteq> JNull
        \<and> firstChoiceContent data \<in> {None, Some JNull, Some (JString [])} \<longrightarrow>
      completeRequest svc rq (Responded r) =
        Inr \<lparr> reply = JString ''I'm sorry, I couldn't generate a response.'',
              response_model = model svc \<rparr>)
   \<and> (map_of entries ''choices'' = Some (JArray (JObject choice # rest))
        \<and> map_of choice ''message'' = Some (JObject msg) \<longrightarrow>
      firstChoiceContent (JObject entries) = map_of msg ''content'')"
proof -
  have g: "completeRequest svc rq (Responded r) =
        Inr \<lparr> reply = (if truthy (firstChoiceContent data) then the (firstChoiceContent data)
                        else JString ''I'm sorry, I couldn't generate a response.''),
              response_model = model svc \<rparr>"
    if "ok r" "bodyJson r = Inr data" "data \<noteq> JNull"
    using complete_ok [OF that] by (simp add: extractReply_def fallbackReply_def)
  have s: "completeRequest svc rq (Responded r) = Inr \<lparr> reply = JString s, response_model = model svc \<rparr>"
    if "ok r" "bodyJson r = Inr data" "data \<noteq> JNull" "firstChoiceContent data = Some (JString s)"
      "s \<noteq> []"
    using g [OF that(1-3)] that(4,5) by simp
  have f: "completeRequest svc rq (Responded r) =
        Inr \<lparr> reply = JString ''I'm sorry, I couldn't generate a response.'',
              response_model = model svc \<rparr>"
    if "ok r" "bodyJson r = Inr data" "data \<noteq> JNull"
      "firstChoiceContent data \<in> {None, Some JNull, Some (JString [])}"
    using g [OF that(1-3)] that(4) by auto
  show ?thesis
    using g s f firstChoiceContent_shape [of entries choice rest msg] by blast
qed

theorem complete_success_witness:
  "completeRequest
     \<lparr> apiUrl = ''https://openrouter.ai/api/v1/chat/completions'', apiKey = ''key'',
       model = ''mistralai/mistral-7b-instruct:free'', companyName = ''Our Company'',
       referer = ''https://faytech-support.lovable.app'' \<rparr>
     \<lparr> messages = [], maxTokens = None, temperature = None \<rparr>
     (Responded \<lparr> status = 200, bodyText = Inr '''',
        bodyJson = Inr (JObject [(''model'', JString ''another-model''),
          (''choices'', JArray [JObject [(''message'',
             JObject [(''role'', JString ''assistant''), (''content'', JString ''Hello'')])]])]) \<rparr>)
   = Inr \<lparr> reply = JString ''Hello'', response_model = ''mistralai/mistral-7b-instruct:free'' \<rparr>
   \<and> completeRequest
     \<lparr> apiUrl = ''https://openrouter.ai/api/v1/chat/completions'', apiKey = ''key'',
       model = ''mistralai/mistral-7b-instruct:free'', companyName = ''Our Company'',
       referer = ''https://faytech-support.lovable.app'' \<rparr>
     \<lparr> messages = [], maxTokens = None, temperature = None \<rparr>
     (Responded \<lparr> status = 200, bodyText = Inr '''', bodyJson = Inr (JObject [(''choices'', JArray [])]) \<rparr>)
   = Inr \<lparr> reply = JString ''I'm sorry, I couldn't generate a response.'',
           response_model = ''mistralai/mistral-7b-instruct:free'' \<rparr>"
proof -
  let ?svc = "\<lparr> apiUrl = ''https://openrouter.ai/api/v1/chat/completions'', apiKey = ''key'',
       model = ''mistralai/mistral-7b-instruct:free'', companyName = ''Our Company'',
       referer = ''https://faytech-support.lovable.app'' \<rparr>"
  let ?rq = "\<lparr> messages = [], maxTokens = None, temperature = None \<rparr>"
  let ?d1 = "JObject [(''model'', JString ''another-model''),
          (''choices'', JArray [JObject [(''message'',
             JObject [(''role'', JString ''assistant''), (''content'', JString ''Hello'')])]])]"
  let ?d2 = "JObject [(''choices'', JArray [])]"
  let ?r1 = "\<lparr> status = 200, bodyText = Inr '''', bodyJson = Inr ?d1 \<rparr>"
  let ?r2 = "\<lparr> status = 200, bodyText = Inr '''', bodyJson = Inr ?d2 \<rparr>"
  have c1: "firstChoiceContent ?d1 = Some (JString ''Hello'')"
    by (simp add: firstChoiceContent_def)
  have c2: "firstChoiceContent ?d2 \<in> {None, Some JNull, Some (JString [])}"
    by (simp add: firstChoiceContent_def)
  have o: "ok ?r1" "ok ?r2" by (simp_all add: ok_def)
  have "completeRequest ?svc ?rq (Responded ?r1) =
      Inr \<lparr> reply = JString ''Hello'', response_model = model ?svc \<rparr>"
    using complete_success [of ?r1 ?d1 ?svc ?rq "''Hello''"] o(1) c1 by simp
  moreover have "completeRequest ?svc ?rq (Responded ?r2) =
      Inr \<lparr> reply = JString ''I'm sorry, I couldn't generate a response.'',
            response_model = model ?svc \<rparr>"
    using complete_success [of ?r2 ?d2 ?svc ?rq] o(2) c2 by auto
  ultimately show ?thesis by simp
qed

text \<open>
  C7 as stated fails on a response with status 200 whose body is not JSON: reading it
  throws, and complete fails with the unexpected error of status 500.
\<close>

theorem complete_success_not_json:
  "completeRequest
     \<lparr> apiUrl = ''https://openrouter.ai/api/v1/chat/completions'', apiKey = ''key'',
       model = ''mistralai/mistral-7b-instruct:free'', companyName = ''Our Company'',
       referer = ''https://faytech-support.lovable.app'' \<rparr>
     \<lparr> messages = [], maxTokens = None, temperature = None \<rparr>
     (Responded \<lparr> status = 200, bodyText = Inr ''<html>Bad gateway</html>'',
                  bodyJson = Inl ''Unexpected token < in JSON at position 0'' \<rparr>)
   = Inl \<lparr> error_message = ''Unexpected token < in JSON at position 0'', statusCode = 500,
           userMessage = ''An unexpected error occurred. Please try again.'' \<rparr>"
  by (simp add: completeRequest_def ok_def unexpectedError_def)

section \<open>Properties of the chat entry point\<close>

lemma invalidMessage_iff:
  "invalidMessage m \<longleftrightarrow> m = None \<or> (\<forall>s. m \<noteq> Some (JString s)) \<or> m = Some (JString [])"
proof (cases m)
  case None
  then show ?thesis by (simp add: invalidMessage_def)
next
  case (Some v)
  then show ?thesis by (cases v) (auto simp: invalidMessage_def)
qed

lemma handleHttpError_not_required:
  "userMessage (handleHttpError st txt) \<noteq> ''Message is required''"
  by (simp add: handleHttpError_def)

lemma completeRequest_not_required:
  "completeRequest svc rq outcome = Inl e \<Longrightarrow>
     createErrorResponse (userMessage e) (statusCode e) \<noteq> createErrorResponse ''Message is required'' 400"
proof (cases outcome)
  case Aborted
  assume "completeRequest svc rq outcome = Inl e"
  with Aborted show ?thesis
    by (auto simp: completeRequest_def timeoutError_def createErrorResponse_def createResponse_def)
next
  case (Rejected msg)
  assume "completeRequest svc rq outcome = Inl e"
  with Rejected show ?thesis
    by (auto simp: completeRequest_def unexpectedError_def createErrorResponse_def createResponse_def)
next
  case (Responded r)
  assume a: "completeRequest svc rq outcome = Inl e"
  show ?thesis
  proof (cases "ok r")
    case False
    show ?thesis
    proof (cases "bodyText r")
      case (Inl msg)
      with a Responded False have "statusCode e = 500"
        by (auto simp: completeRequest_def unexpectedError_def)
      then show ?thesis by (simp add: createErrorResponse_def createResponse_def)
    next
      case (Inr errorText)
      with a Responded False have "e = handleHttpError (status r) errorText"
        by (simp add: completeRequest_def)
      then show ?thesis
        using handleHttpError_not_required [of "status r" errorText]
        by (simp add: createErrorResponse_def createResponse_def)
    qed
  next
    case True
    with a Responded have "statusCode e = 500"
      by (auto simp: completeRequest_def unexpectedError_def split: sum.splits json.splits)
    then show ?thesis by (simp add: createErrorResponse_def createResponse_def)
  qed
qed

lemma handler_valid_message:
  assumes "request_method req \<noteq> ''OPTIONS''" and "body req = Inr r" and "\<not> invalidMessage (message r)"
  shows "fst (handler env req outcome) \<noteq> createErrorResponse ''Message is required'' 400"
proof (cases "create env (case request_companyName r of None \<Rightarrow> ''Our Company'' | Some n \<Rightarrow> n)")
  case (Inl e)
  then have "statusCode e = 500" by (auto simp: create_def split: if_splits)
  with assms Inl show ?thesis
    by (simp add: handler_def Let_def createErrorResponse_def createResponse_def)
next
  case (Inr svc)
  obtain msgs hc where cc: "createConversation svc (messageText (message r))
      (case knowledgeContext r of None \<Rightarrow> [] | Some c \<Rightarrow> c)
      (case conversationHistory r of None \<Rightarrow> [] | Some h \<Rightarrow> h) = (msgs, hc)"
    by (cases "createConversation svc (messageText (message r))
      (case knowledgeContext r of None \<Rightarrow> [] | Some c \<Rightarrow> c)
      (case conversationHistory r of None \<Rightarrow> [] | Some h \<Rightarrow> h)")
  show ?thesis
  proof (cases "completeRequest svc \<lparr> messages = msgs, maxTokens = None, temperature = None \<rparr> outcome")
    case (Inl e)
    with assms Inr cc completeRequest_not_required [OF Inl] show ?thesis
      by (simp add: handler_def Let_def)
  next
    case (Inr res)
    with assms \<open>create env _ = Inr svc\<close> cc show ?thesis
      by (simp add: handler_def Let_def createErrorResponse_def createResponse_def)
  qed
qed

lemma handler_invalid_message:
  assumes "request_method req \<noteq> ''OPTIONS''" and "body req = Inr r" and "invalidMessage (message r)"
  shows "handler env req outcome = (createErrorResponse ''Message is required'' 400, [])"
  using assms by (simp add: handler_def Let_def)

lemma handler_no_body:
  assumes "request_method req = ''OPTIONS'' \<or> body req = Inl msg"
  shows "fst (handler env req outcome) \<noteq> createErrorResponse ''Message is required'' 400"
  using assms by (auto simp: handler_def createErrorResponse_def createResponse_def)

text \<open>
  C10 (amended). For every request to the entry point, the InvalidInput answer (status 400,
  "Message is required") is returned if and only if the request is not a preflight, its
  body could be read, and the message is missing, is not a string, or is the empty
  string; in that case no conversation is built and no completion call is made.
\<close>

theorem handler_invalid_input:
  "(fst (handler env req outcome) = createErrorResponse ''Message is required'' 400 \<longleftrightarrow>
      request_method req \<noteq> ''OPTIONS'' \<and>
      (\<exists>r. body req = Inr r \<and>
         (message r = None \<or> (\<forall>s. message r \<noteq> Some (JString s)) \<or> message r = Some (JString []))))
   \<and> (fst (handler env req outcome) = createErrorResponse ''Message is required'' 400 \<longrightarrow>
        snd (handler env req outcome) = [])"
proof -
  have iff: "fst (handler env req outcome) = createErrorResponse ''Message is required'' 400 \<longleftrightarrow>
      request_method req \<noteq> ''OPTIONS'' \<and> (\<exists>r. body req = Inr r \<and> invalidMessage (message r))"
  proof (cases "request_method req = ''OPTIONS''")
    case True
    then show ?thesis using handler_no_body [of req "[]" env outcome] by simp
  next
    case False
    show ?thesis
    proof (cases "body req")
      case (Inl msg)
      then show ?thesis using handler_no_body [of req msg env outcome] by simp
    next
      case (Inr r)
      show ?thesis
      proof (cases "invalidMessage (message r)")
        case True
        with False Inr handler_invalid_message [of req r env outcome] show ?thesis by simp
      next
        case nv: False
        with False Inr handler_valid_message [of req r env outcome] show ?thesis by simp
      qed
    qed
  qed
  have eff: "snd (handler env req outcome) = []"
    if "fst (handler env req outcome) = createErrorResponse ''Message is required'' 400"
  proof -
    from that iff obtain r where "request_method req \<noteq> ''OPTIONS''" "body req = Inr r"
      "invalidMessage (message r)" by blast
    then show ?thesis using handler_invalid_message [of req r env outcome] by simp
  qed
  show ?thesis using iff eff by (simp add: invalidMessage_iff)
qed

theorem handler_invalid_input_witness:
  "handler
     \<lparr> OPENROUTER_API_KEY = Some ''key'', OPENROUTER_API_URL = None, OPENROUTER_MODEL = None \<rparr>
     \<lparr> request_method = ''POST'',
       body = Inr \<lparr> message = Some (JNumber 5), conversationHistory = None,
                    knowledgeContext = None, request_companyName = None \<rparr> \<rparr>
     Aborted
   = (createErrorResponse ''Message is required'' 400, [])"
proof -
  let ?env = "\<lparr> OPENROUTER_API_KEY = Some ''key'', OPENROUTER_API_URL = None, OPENROUTER_MODEL = None \<rparr>"
  let ?req = "\<lparr> request_method = ''POST'',
       body = Inr \<lparr> message = Some (JNumber 5), conversationHistory = None,
                    knowledgeContext = None, request_companyName = None \<rparr> \<rparr>"
  have "fst (handler ?env ?req Aborted) = createErrorResponse ''Message is required'' 400
      \<and> snd (handler ?env ?req Aborted) = []"
    using handler_invalid_input [of ?env ?req Aborted] by simp
  then show ?thesis by (simp add: prod_eq_iff)
qed

text \<open>
  C10 as stated fails on a message that is the empty string: it is present and it is a
  string, and the guard \<open>!message\<close> still answers 400.
\<close>

theorem handler_empty_message:
  "handler
     \<lparr> OPENROUTER_API_KEY = Some ''key'', OPENROUTER_API_URL = None, OPENROUTER_MODEL = None \<rparr>
     \<lparr> request_method = ''POST'',
       body = Inr \<lparr> message = Some (JString ''''), conversationHistory = None,
                    knowledgeContext = None, request_companyName = None \<rparr> \<rparr>
     Aborted
   = (\<lparr> response_status = 400, response_body = ErrorBody ''Message is required'' \<rparr>, [])"
  by (simp add: handler_def invalidMessage_def createErrorResponse_def createResponse_def)

section \<open>Properties of formatContextForPrompt\<close>

lemma contextParts_nth:
  "contextParts i rs =
     map (\<lambda>k. ''[Document '' @ showNat (i + k + 1) @ '': '' @ title (chunk (rs ! k)) @ '']\<newline>''
                @ content (chunk (rs ! k))) [0..<length rs]"
proof (induction rs arbitrary: i)
  case Nil
  then show ?case by simp
next
  case (Cons r rs)
  have "[0..<length (r # rs)] = 0 # map Suc [0..<length rs]"
    by (simp add: upt_conv_Cons map_Suc_upt del: upt_Suc)
  then show ?case using Cons.IH [of "i + 1"] by (simp add: comp_def del: upt_Suc)
qed

lemma join_Cons: "join sep (p # ps) = p @ (if ps = [] then [] else sep @ join sep ps)"
  by (cases ps) simp_all

lemma formatContextForPrompt_starts:
  assumes "rs \<noteq> []"
  shows "\<exists>rest. formatContextForPrompt rs = CHR ''['' # rest"
proof -
  from assms obtain r rs' where "rs = r # rs'" by (cases rs) auto
  then show ?thesis by (simp add: formatContextForPrompt_def join_Cons)
qed

lemma trim_Nil: "trim [] = []"
  by (simp add: trim_def)

lemma trim_starts:
  assumes "\<not> isWhitespace c"
  shows "trim (c # s) \<noteq> []"
proof -
  have "dropWhile isWhitespace (rev s @ [c]) \<noteq> []"
    using assms by (simp add: dropWhile_eq_Nil_conv)
  with assms show ?thesis by (simp add: trim_def)
qed

lemma trim_formatContextForPrompt:
  "trim (formatContextForPrompt rs) = [] \<longleftrightarrow> rs = []"
proof (cases "rs = []")
  case True
  then show ?thesis by (simp add: formatContextForPrompt_def trim_Nil)
next
  case False
  then obtain rest where "formatContextForPrompt rs = CHR ''['' # rest"
    using formatContextForPrompt_starts by blast
  moreover have "\<not> isWhitespace CHR ''[''" by (simp add: isWhitespace_def code_def)
  ultimately show ?thesis using False trim_starts by simp
qed

lemma hasContext_iff: "\<not> snd (createConversation svc u ctx h) \<longleftrightarrow> trim ctx = []"
  by (cases ctx) (simp_all add: createConversation_def Let_def trim_Nil)

text \<open>
  C6. formatContextForPrompt gives the empty string on the empty sequence. On a sequence
  that is not empty it gives, in the order of the input, the blocks
  \<open>[Document k: title]\<close>, a newline and the content of the chunk, with k counted from 1,
  joined by a blank line, a line of three dashes and a blank line. The hasContext flag that
  createConversation returns is false if and only if the context it is given is empty after
  trimming, for the formatted context of any results as for any other string; and the flag
  that retrieveContext returns beside its formatted context is false under the same
  condition.
\<close>

theorem formatContextForPrompt_blocks:
  "formatContextForPrompt [] = ''''
   \<and> (rs \<noteq> [] \<longrightarrow>
        formatContextForPrompt rs =
          join ''\<newline>\<newline>---\<newline>\<newline>''
            (map (\<lambda>k. ''[Document '' @ showNat (k + 1) @ '': '' @ title (chunk (rs ! k)) @ '']\<newline>''
                       @ content (chunk (rs ! k))) [0..<length rs]))
   \<and> (\<not> snd (createConversation svc u (formatContextForPrompt rs) h) \<longleftrightarrow>
        trim (formatContextForPrompt rs) = '''')
   \<and> (\<not> snd (createConversation svc u ctx h) \<longleftrightarrow> trim ctx = '''')
   \<and> (\<not> fst (snd (retrieveContext kb query)) \<longleftrightarrow> trim (fst (retrieveContext kb query)) = '''')"
proof -
  have e: "formatContextForPrompt [] = ''''"
    by (simp add: formatContextForPrompt_def)
  have b: "formatContextForPrompt rs =
          join ''\<newline>\<newline>---\<newline>\<newline>''
            (map (\<lambda>k. ''[Document '' @ showNat (k + 1) @ '': '' @ title (chunk (rs ! k)) @ '']\<newline>''
                       @ content (chunk (rs ! k))) [0..<length rs])"
    if "rs \<noteq> []"
    using that contextParts_nth [of 0 rs] by (simp add: formatContextForPrompt_def)
  have r: "\<not> fst (snd (retrieveContext kb query)) \<longleftrightarrow> trim (fst (retrieveContext kb query)) = ''''"
    by (simp add: retrieveContext_def getRelevantContext_def Let_def trim_formatContextForPrompt)
  show ?thesis
    using e b r hasContext_iff [of svc u "formatContextForPrompt rs" h] hasContext_iff [of svc u ctx h]
    by blast
qed

theorem formatContextForPrompt_blocks_witness:
  "formatContextForPrompt
     [\<lparr> chunk = \<lparr> chunk_id = ''a'', title = ''Refunds'', category = Legal,
                  content = ''No refund.'', chunk_keywords = [] \<rparr>,
        score = 5, matchedKeywords = [] \<rparr>,
      \<lparr> chunk = \<lparr> chunk_id = ''b'', title = ''Hours'', category = Support,
                  content = ''9 to 6'', chunk_keywords = [] \<rparr>,
        score = 3, matchedKeywords = [] \<rparr>]
   = ''[Document 1: Refunds]\<newline>No refund.\<newline>\<newline>---\<newline>\<newline>[Document 2: Hours]\<newline>9 to 6''"
proof -
  let ?rs = "[\<lparr> chunk = \<lparr> chunk_id = ''a'', title = ''Refunds'', category = Legal,
                  content = ''No refund.'', chunk_keywords = [] \<rparr>,
        score = 5, matchedKeywords = [] \<rparr>,
      \<lparr> chunk = \<lparr> chunk_id = ''b'', title = ''Hours'', category = Support,
                  content = ''9 to 6'', chunk_keywords = [] \<rparr>,
        score = 3, matchedKeywords = [] \<rparr>]"
  have n: "showNat (Suc 0) = ''1''" "showNat 2 = ''2''" "showNat (Suc (Suc 0)) = ''2''"
    by (simp_all add: showNat.simps char_of_def bit_Suc_0_iff numeral_2_eq_2 [symmetric])
  have u: "[0..<length ?rs] = [0, 1]"
    by (simp add: upt_conv_Cons)
  have "?rs \<noteq> []" by simp
  then show ?thesis
    using formatContextForPrompt_blocks [of ?rs] unfolding u by (simp add: n)
qed

section \<open>The sample corpus and the query about the cost of a website\<close>

lemma toLowerCase_append: "toLowerCase (a @ b) = toLowerCase a @ toLowerCase b"
  by (simp add: toLowerCase_def)

text \<open>A term without the character \<open>sep\<close> cannot lie across it.\<close>

lemma includes_str_sep:
  assumes "sep \<notin> set t"
  shows "includes_str (a @ sep # b) t \<longleftrightarrow> includes_str a t \<or> includes_str b t"
proof -
  have p: "prefix u (sep # b) \<Longrightarrow> set u \<subseteq> set t \<Longrightarrow> u = []" for u
    using assms by (cases u) auto
  have "sublist t (a @ sep # b) \<longleftrightarrow> sublist t a \<or> sublist t b"
  proof
    assume "sublist t (a @ sep # b)"
    then consider "sublist t a" | "sublist t (sep # b)"
      | t1 t2 where "t = t1 @ t2" "suffix t1 a" "prefix t2 (sep # b)"
      by (auto simp: sublist_append)
    then show "sublist t a \<or> sublist t b"
    proof cases
      case 1
      then show ?thesis by simp
    next
      case 2
      then have "prefix t (sep # b) \<or> sublist t b" by (simp add: sublist_Cons_right)
      then show ?thesis using p [of t] by auto
    next
      case 3
      then have "t2 = []" using p [of t2] by auto
      with 3 show ?thesis by (auto simp: suffix_imp_sublist)
    qed
  next
    assume "sublist t a \<or> sublist t b"
    then show "sublist t (a @ sep # b)"
      by (auto simp: sublist_append sublist_Cons_right)
  qed
  then show ?thesis by (simp add: includes_str_iff_sublist)
qed

lemma score_scoreChunk_distinct:
  assumes "distinct qs"
  shows "score (scoreChunk c qs) =
     3 * of_nat (length (filter (keywordHit (chunk_keywords c)) qs))
     + 2 * of_nat (length (filter (includes_str (toLowerCase (title c))) qs))
     + of_nat (length (filter (includes_str (toLowerCase (content c))) qs))
     + of_nat (length (filter (\<lambda>q. keywordHit (chunk_keywords c) q
          \<or> includes_str (toLowerCase (title c)) q \<or> includes_str (toLowerCase (content c)) q) qs))
       * (1 / 2)"
proof -
  have "card (set (matchedKeywords (scoreChunk c qs))) =
      length (filter (\<lambda>q. keywordHit (chunk_keywords c) q
          \<or> includes_str (toLowerCase (title c)) q \<or> includes_str (toLowerCase (content c)) q) qs)"
    unfolding set_matched_scoreChunk
    using distinct_card [OF distinct_filter [OF assms]] by (simp only: set_filter)
  then show ?thesis using score_scoreChunk [of c qs] by simp
qed

lemma extractKeywords_cost_query:
  "extractKeywords ''how much does a website cost'' = [''much'', ''website'', ''cost'']"
  by (simp add: extractKeywords_def toLowerCase_Cons toLowerCase_Nil toLowerChar_Char
      replacePunctuation_def isWordChar_def isWhitespace_def code_def splitWhitespace_def
      STOP_WORDS_def newSet_def setInsert_def)

lemmas score_eval =
  scoreChunk_def Let_def keywordStep_def keywordHit_def textStep_def
  toLowerCase_Cons toLowerCase_Nil toLowerChar_Char newSet_def setInsert_def

lemmas tier_eval =
  keywordHit_def toLowerCase_Cons toLowerCase_Nil toLowerChar_Char toLowerCase_append
  includes_str_sep

text \<open>
  The score of each of the sixteen chunks for the three terms of the query, for any
  company name \<open>cn\<close>. Ten chunks do not hold the name. In the six others the name stands
  between spaces, line ends and full stops, so a term occurs in the content when it occurs
  in the fixed text or in the lowercased name.
\<close>

lemma tiers_services_overview:
  "keywordHit (chunk_keywords (chunk_services_overview cn)) ''much'' = False"
  "keywordHit (chunk_keywords (chunk_services_overview cn)) ''website'' = True"
  "keywordHit (chunk_keywords (chunk_services_overview cn)) ''cost'' = False"
  "includes_str (toLowerCase (title (chunk_services_overview cn))) ''much'' = False"
  "includes_str (toLowerCase (title (chunk_services_overview cn))) ''website'' = False"
  "includes_str (toLowerCase (title (chunk_services_overview cn))) ''cost'' = False"
  "includes_str (toLowerCase (content (chunk_services_overview cn))) ''much'' = includes_str (toLowerCase cn) ''much''"
  "includes_str (toLowerCase (content (chunk_services_overview cn))) ''website'' = True"
  "includes_str (toLowerCase (content (chunk_services_overview cn))) ''cost'' = includes_str (toLowerCase cn) ''cost''"
  by (simp_all add: chunk_services_overview_def tier_eval)

lemma score_services_overview:
  "score (scoreChunk (chunk_services_overview cn) [''much'', ''website'', ''cost'']) =
     9 / 2 + (if includes_str (toLowerCase cn) ''much'' then 3 / 2 else 0) + (if includes_str (toLowerCase cn) ''cost'' then 3 / 2 else 0)"
  by (simp add: score_scoreChunk_distinct tiers_services_overview)

lemma score_support_hours:
  "score (scoreChunk (chunk_support_hours cn) [''much'', ''website'', ''cost'']) = 0"
  by (simp add: chunk_support_hours_def score_eval)

lemma tiers_pricing_billing:
  "keywordHit (chunk_keywords (chunk_pricing_billing cn)) ''much'' = True"
  "keywordHit (chunk_keywords (chunk_pricing_billing cn)) ''website'' = False"
  "keywordHit (chunk_keywords (chunk_pricing_billing cn)) ''cost'' = True"
  "includes_str (toLowerCase (title (chunk_pricing_billing cn))) ''much'' = False"
  "includes_str (toLowerCase (title (chunk_pricing_billing cn))) ''website'' = False"
  "includes_str (toLowerCase (title (chunk_pricing_billing cn))) ''cost'' = False"
  "includes_str (toLowerCase (content (chunk_pricing_billing cn))) ''much'' = includes_str (toLowerCase cn) ''much''"
  "includes_str (toLowerCase (content (chunk_pricing_billing cn))) ''website'' = includes_str (toLowerCase cn) ''website''"
  "includes_str (toLowerCase (content (chunk_pricing_billing cn))) ''cost'' = includes_str (toLowerCase cn) ''cost''"
  by (simp_all add: chunk_pricing_billing_def tier_eval)

lemma score_pricing_billing:
  "score (scoreChunk (chunk_pricing_billing cn) [''much'', ''website'', ''cost'']) =
     7 + (if includes_str (toLowerCase cn) ''much'' then 1 else 0) + (if includes_str (toLowerCase cn) ''website'' then 3 / 2 else 0) + (if includes_str (toLowerCase cn) ''cost'' then 1 else 0)"
  by (simp add: score_scoreChunk_distinct tiers_pricing_billing)

lemma score_project_process:
  "score (scoreChunk (chunk_project_process cn) [''much'', ''website'', ''cost'']) = 0"
  by (simp add: chunk_project_process_def score_eval)

lemma score_technical_support:
  "score (scoreChunk (chunk_technical_support cn) [''much'', ''website'', ''cost'']) = 0"
  by (simp add: chunk_technical_support_def score_eval)

lemma tiers_ai_chatbot_services:
  "keywordHit (chunk_keywords (chunk_ai_chatbot_services cn)) ''much'' = False"
  "keywordHit (chunk_keywords (chunk_ai_chatbot_services cn)) ''website'' = False"
  "keywordHit (chunk_keywords (chunk_ai_chatbot_services cn)) ''cost'' = False"
  "includes_str (toLowerCase (title (chunk_ai_chatbot_services cn))) ''much'' = False"
  "includes_str (toLowerCase (title (chunk_ai_chatbot_services cn))) ''website'' = False"
  "includes_str (toLowerCase (title (chunk_ai_chatbot_services cn))) ''cost'' = False"
  "includes_str (toLowerCase (content (chunk_ai_chatbot_services cn))) ''much'' = includes_str (toLowerCase cn) ''much''"
  "includes_str (toLowerCase (content (chunk_ai_chatbot_services cn))) ''website'' = includes_str (toLowerCase cn) ''website''"
  "includes_str (toLowerCase (content (chunk_ai_chatbot_services cn))) ''cost'' = includes_str (toLowerCase cn) ''cost''"
  by (simp_all add: chunk_ai_chatbot_services_def tier_eval)

lemma score_ai_chatbot_services:
  "score (scoreChunk (chunk_ai_chatbot_services cn) [''much'', ''website'', ''cost'']) =
     0 + (if includes_str (toLowerCase cn) ''much'' then 3 / 2 else 0) + (if includes_str (toLowerCase cn) ''website'' then 3 / 2 else 0) + (if includes_str (toLowerCase cn) ''cost'' then 3 / 2 else 0)"
  by (simp add: score_scoreChunk_distinct tiers_ai_chatbot_services)

lemma score_data_privacy_security:
  "score (scoreChunk (chunk_data_privacy_security cn) [''much'', ''website'', ''cost'']) = 0"
  by (simp add: chunk_data_privacy_security_def score_eval)

lemma tiers_account_access:
  "keywordHit (chunk_keywords (chunk_account_access cn)) ''much'' = False"
  "keywordHit (chunk_keywords (chunk_account_access cn)) ''website'' = False"
  "keywordHit (chunk_keywords (chunk_account_access cn)) ''cost'' = False"
  "includes_str (toLowerCase (title (chunk_account_access cn))) ''much'' = False"
  "includes_str (toLowerCase (title (chunk_account_access cn))) ''website'' = False"
  "includes_str (toLowerCase (title (chunk_account_access cn))) ''cost'' = False"
  "includes_str (toLowerCase (content (chunk_account_access cn))) ''much'' = includes_str (toLowerCase cn) ''much''"
  "includes_str (toLowerCase (content (chunk_account_access cn))) ''website'' = includes_str (toLowerCase cn) ''website''"
  "includes_str (toLowerCase (content (chunk_account_access cn))) ''cost'' = includes_str (toLowerCase cn) ''cost''"
  by (simp_all add: chunk_account_access_def tier_eval)

lemma score_account_access:
  "score (scoreChunk (chunk_account_access cn) [''much'', ''website'', ''cost'']) =
     0 + (if includes_str (toLowerCase cn) ''much'' then 3 / 2 else 0) + (if includes_str (toLowerCase cn) ''website'' then 3 / 2 else 0) + (if includes_str (toLowerCase cn) ''cost'' then 3 / 2 else 0)"
  by (simp add: score_scoreChunk_distinct tiers_account_access)

lemma score_faq_redesign:
  "score (scoreChunk (chunk_faq_redesign cn) [''much'', ''website'', ''cost'']) = 13 / 2"
  by (simp add: chunk_faq_redesign_def score_eval)

lemma score_faq_api_integration:
  "score (scoreChunk (chunk_faq_api_integration cn) [''much'', ''website'', ''cost'']) = 0"
  by (simp add: chunk_faq_api_integration_def score_eval)

lemma score_faq_mobile_app:
  "score (scoreChunk (chunk_faq_mobile_app cn) [''much'', ''website'', ''cost'']) = 0"
  by (simp add: chunk_faq_mobile_app_def score_eval)

lemma score_faq_existing_maintenance:
  "score (scoreChunk (chunk_faq_existing_maintenance cn) [''much'', ''website'', ''cost'']) = 0"
  by (simp add: chunk_faq_existing_maintenance_def score_eval)

lemma score_contracts_legal:
  "score (scoreChunk (chunk_contracts_legal cn) [''much'', ''website'', ''cost'']) = 0"
  by (simp add: chunk_contracts_legal_def score_eval)

lemma score_refunds_cancellations:
  "score (scoreChunk (chunk_refunds_cancellations cn) [''much'', ''website'', ''cost'']) = 0"
  by (simp add: chunk_refunds_cancellations_def score_eval)

lemma tiers_contact_info:
  "keywordHit (chunk_keywords (chunk_contact_info cn)) ''much'' = False"
  "keywordHit (chunk_keywords (chunk_contact_info cn)) ''website'' = False"
  "keywordHit (chunk_keywords (chunk_contact_info cn)) ''cost'' = False"
  "includes_str (toLowerCase (title (chunk_contact_info cn))) ''much'' = False"
  "includes_str (toLowerCase (title (chunk_contact_info cn))) ''website'' = False"
  "includes_str (toLowerCase (title (chunk_contact_info cn))) ''cost'' = False"
  "includes_str (toLowerCase (content (chunk_contact_info cn))) ''much'' = includes_str (toLowerCase cn) ''much''"
  "includes_str (toLowerCase (content (chunk_contact_info cn))) ''website'' = True"
  "includes_str (toLowerCase (content (chunk_contact_info cn))) ''cost'' = includes_str (toLowerCase cn) ''cost''"
  by (simp_all add: chunk_contact_info_def tier_eval)

lemma score_contact_info:
  "score (scoreChunk (chunk_contact_info cn) [''much'', ''website'', ''cost'']) =
     3 / 2 + (if includes_str (toLowerCase cn) ''much'' then 3 / 2 else 0) + (if includes_str (toLowerCase cn) ''cost'' then 3 / 2 else 0)"
  by (simp add: score_scoreChunk_distinct tiers_contact_info)

lemma tiers_language_support:
  "keywordHit (chunk_keywords (chunk_language_support cn)) ''much'' = False"
  "keywordHit (chunk_keywords (chunk_language_support cn)) ''website'' = False"
  "keywordHit (chunk_keywords (chunk_language_support cn)) ''cost'' = False"
  "includes_str (toLowerCase (title (chunk_language_support cn))) ''much'' = False"
  "includes_str (toLowerCase (title (chunk_language_support cn))) ''website'' = False"
  "includes_str (toLowerCase (title (chunk_language_support cn))) ''cost'' = False"
  "includes_str (toLowerCase (content (chunk_language_support cn))) ''much'' = includes_str (toLowerCase cn) ''much''"
  "includes_str (toLowerCase (content (chunk_language_support cn))) ''website'' = includes_str (toLowerCase cn) ''website''"
  "includes_str (toLowerCase (content (chunk_language_support cn))) ''cost'' = includes_str (toLowerCase cn) ''cost''"
  by (simp_all add: chunk_language_support_def tier_eval)

lemma score_language_support:
  "score (scoreChunk (chunk_language_support cn) [''much'', ''website'', ''cost'']) =
     0 + (if includes_str (toLowerCase cn) ''much'' then 3 / 2 else 0) + (if includes_str (toLowerCase cn) ''website'' then 3 / 2 else 0) + (if includes_str (toLowerCase cn) ''cost'' then 3 / 2 else 0)"
  by (simp add: score_scoreChunk_distinct tiers_language_support)

lemmas cost_query_scores =
  score_services_overview
  score_support_hours
  score_pricing_billing
  score_project_process
  score_technical_support
  score_ai_chatbot_services
  score_data_privacy_security
  score_account_access
  score_faq_redesign
  score_faq_api_integration
  score_faq_mobile_app
  score_faq_existing_maintenance
  score_contracts_legal
  score_refunds_cancellations
  score_contact_info
  score_language_support

lemma default_name_terms:
  "includes_str (toLowerCase ''Our Company'') ''much'' = False"
  "includes_str (toLowerCase ''Our Company'') ''website'' = False"
  "includes_str (toLowerCase ''Our Company'') ''cost'' = False"
  by (simp_all add: toLowerCase_Cons toLowerCase_Nil toLowerChar_Char)

lemma retrieve_cost_query:
  "retrieveRelevantChunks (knowledgeBase ''Our Company'') ''how much does a website cost'' k 2 =
     slice0 k
       [scoreChunk (chunk_pricing_billing ''Our Company'') [''much'', ''website'', ''cost''],
        scoreChunk (chunk_faq_redesign ''Our Company'') [''much'', ''website'', ''cost''],
        scoreChunk (chunk_services_overview ''Our Company'') [''much'', ''website'', ''cost'']]"
  by (simp add: retrieveRelevantChunks_def extractKeywords_cost_query knowledgeBase_def
      sortByScoreDesc_def cost_query_scores default_name_terms Let_def)

text \<open>Whatever the company name, the pricing chunk comes first.\<close>

lemma retrieve_cost_query_first:
  "retrieveRelevantChunks (knowledgeBase cn) ''how much does a website cost'' 4 2 \<noteq> []
   \<and> hd (retrieveRelevantChunks (knowledgeBase cn) ''how much does a website cost'' 4 2) =
       scoreChunk (chunk_pricing_billing cn) [''much'', ''website'', ''cost'']"
  by (cases "includes_str (toLowerCase cn) ''much''";
      cases "includes_str (toLowerCase cn) ''website''";
      cases "includes_str (toLowerCase cn) ''cost''")
     (simp_all add: retrieveRelevantChunks_def extractKeywords_cost_query knowledgeBase_def
        sortByScoreDesc_def cost_query_scores Let_def slice0_def)

section \<open>Properties of retrieveRelevantChunks\<close>

lemma filter_take_prefix: "prefix (filter P (take n xs)) (filter P xs)"
proof -
  have "filter P xs = filter P (take n xs) @ filter P (drop n xs)"
    by (metis append_take_drop_id filter_append)
  then show ?thesis by (simp add: prefix_def)
qed

lemma slice0_nonneg: "0 \<le> k \<Longrightarrow> slice0 k xs = take (nat k) xs"
  by (simp add: slice0_def)

lemma sortByScoreDesc_sorted: "sorted_wrt (\<lambda>a b. score b \<le> score a) (sortByScoreDesc rs)"
proof -
  have "sorted (map (\<lambda>r. - score r) (sort_key (\<lambda>r. - score r) rs))"
    by (rule sorted_sort_key)
  then show ?thesis by (simp add: sortByScoreDesc_def sorted_map)
qed

lemma sortByScoreDesc_stable:
  "filter (\<lambda>r. score r = s) (sortByScoreDesc rs) = filter (\<lambda>r. score r = s) rs"
proof -
  have "filter (\<lambda>r. - score r = - s) (sort_key (\<lambda>r. - score r) rs) = filter (\<lambda>r. - score r = - s) rs"
    by (rule sort_key_stable)
  then show ?thesis by (simp add: sortByScoreDesc_def)
qed

lemma filter_score_floor:
  "prefix (filter (\<lambda>r. score r = s) (filter (\<lambda>r. m \<le> score r) rs)) (filter (\<lambda>r. score r = s) rs)"
proof (cases "m \<le> s")
  case True
  then have "filter (\<lambda>r. score r = s) (filter (\<lambda>r. m \<le> score r) rs) = filter (\<lambda>r. score r = s) rs"
    by (induction rs) auto
  then show ?thesis by simp
next
  case False
  then have "filter (\<lambda>r. score r = s) (filter (\<lambda>r. m \<le> score r) rs) = []"
    by (induction rs) auto
  then show ?thesis by simp
qed

lemma slice0_take: "\<exists>n. slice0 k xs = take n xs"
  by (auto simp: slice0_def)

text \<open>
  C1 (amended). For every corpus, query, floor and result cap: when \<open>topK\<close> is not negative,
  at most \<open>topK\<close> results are returned; and for every \<open>topK\<close>, each result has a score of at
  least \<open>minScore\<close>; the scores do not increase along the results; for every score, the
  results of that score are the first chunks of that score in the corpus, in the corpus
  order; and a query with no extracted term gives no result, whatever the corpus holds.
\<close>

theorem retrieveRelevantChunks_props:
  "(0 \<le> topK \<longrightarrow> int (length (retrieveRelevantChunks kb query topK minScore)) \<le> topK)
   \<and> (\<forall>r \<in> set (retrieveRelevantChunks kb query topK minScore). minScore \<le> score r)
   \<and> sorted_wrt (\<lambda>a b. score b \<le> score a) (retrieveRelevantChunks kb query topK minScore)
   \<and> (\<forall>s. prefix (filter (\<lambda>r. score r = s) (retrieveRelevantChunks kb query topK minScore))
              (filter (\<lambda>r. score r = s) (map (\<lambda>c. scoreChunk c (extractKeywords query)) kb)))
   \<and> (extractKeywords query = [] \<longrightarrow> retrieveRelevantChunks kb query topK minScore = [])"
proof (cases "extractKeywords query = []")
  case True
  then show ?thesis by (simp add: retrieveRelevantChunks_def)
next
  case False
  let ?scored = "map (\<lambda>c. scoreChunk c (extractKeywords query)) kb"
  let ?kept = "filter (\<lambda>r. minScore \<le> score r) ?scored"
  have sl: "retrieveRelevantChunks kb query topK minScore = slice0 topK (sortByScoreDesc ?kept)"
    using False by (simp add: retrieveRelevantChunks_def)
  then obtain n where res: "retrieveRelevantChunks kb query topK minScore = take n (sortByScoreDesc ?kept)"
    using slice0_take [of topK "sortByScoreDesc ?kept"] by auto
  have len: "int (length (retrieveRelevantChunks kb query topK minScore)) \<le> topK" if "0 \<le> topK"
    using that by (simp add: sl slice0_nonneg)
  have floor: "\<forall>r \<in> set (take n (sortByScoreDesc ?kept)). minScore \<le> score r"
  proof
    fix r assume "r \<in> set (take n (sortByScoreDesc ?kept))"
    then have "r \<in> set (sortByScoreDesc ?kept)" by (rule in_set_takeD)
    then have "r \<in> set ?kept" by (simp add: sortByScoreDesc_def)
    then show "minScore \<le> score r" by simp
  qed
  have srt: "sorted_wrt (\<lambda>a b. score b \<le> score a) (take n (sortByScoreDesc ?kept))"
    by (rule sorted_wrt_take [OF sortByScoreDesc_sorted])
  have tie: "prefix (filter (\<lambda>r. score r = s) (take n (sortByScoreDesc ?kept)))
               (filter (\<lambda>r. score r = s) ?scored)" for s
  proof -
    have "prefix (filter (\<lambda>r. score r = s) (take n (sortByScoreDesc ?kept)))
            (filter (\<lambda>r. score r = s) (sortByScoreDesc ?kept))"
      by (rule filter_take_prefix)
    then have "prefix (filter (\<lambda>r. score r = s) (take n (sortByScoreDesc ?kept)))
            (filter (\<lambda>r. score r = s) ?kept)"
      by (simp only: sortByScoreDesc_stable)
    then show ?thesis
      using filter_score_floor [of s minScore ?scored] by (rule prefix_order.trans)
  qed
  show ?thesis
    using len floor srt tie False unfolding res [symmetric] by blast
qed

theorem retrieveRelevantChunks_props_witness:
  "int (length (retrieveRelevantChunks (knowledgeBase (COMPANY_NAME None))
        ''how much does a website cost'' 4 2)) \<le> 4
   \<and> sorted_wrt (\<lambda>a b. score b \<le> score a)
        (retrieveRelevantChunks (knowledgeBase (COMPANY_NAME None)) ''how much does a website cost'' 4 2)
   \<and> retrieveRelevantChunks (knowledgeBase (COMPANY_NAME None)) ''how much does a website cost'' 4 2 \<noteq> []"
proof -
  have "retrieveRelevantChunks (knowledgeBase (COMPANY_NAME None)) ''how much does a website cost'' 4 2 \<noteq> []"
    by (simp add: COMPANY_NAME_def retrieve_cost_query slice0_def)
  then show ?thesis
    using retrieveRelevantChunks_props
      [of 4 "knowledgeBase (COMPANY_NAME None)" "''how much does a website cost''" 2]
    by simp
qed

text \<open>
  C1 as stated fails for a negative \<open>topK\<close>: \<open>slice(0, -1)\<close> drops the last element only. On
  the sample corpus the query about the cost of a website has three chunks at or above the
  floor 2, and with \<open>topK = -1\<close> the function returns two of them, which is more than
  \<open>topK\<close>.
\<close>

theorem retrieveRelevantChunks_negative_topK:
  "length (retrieveRelevantChunks (knowledgeBase (COMPANY_NAME None))
      ''how much does a website cost'' (- 1) 2) = 2
   \<and> map (chunk_id \<circ> chunk) (retrieveRelevantChunks (knowledgeBase (COMPANY_NAME None))
      ''how much does a website cost'' (- 1) 2) = [''pricing-billing'', ''faq-redesign'']"
  by (simp add: COMPANY_NAME_def retrieve_cost_query slice0_def chunk_scoreChunk
      chunk_pricing_billing_def chunk_faq_redesign_def)

lemma cost_query_chunk_ids:
  "chunk_id (chunk_pricing_billing cn) = ''pricing-billing''"
  "chunk_id (chunk_faq_redesign cn) = ''faq-redesign''"
  "chunk_id (chunk_services_overview cn) = ''services-overview''"
  by (simp_all add: chunk_pricing_billing_def chunk_faq_redesign_def chunk_services_overview_def)

text \<open>
  C9. On the sample corpus with the default company name, the query
  \<open>how much does a website cost\<close> with \<open>topK = 4\<close> and \<open>minScore = 2\<close> returns three
  results: the pricing document first with score 7, then the redesign question with 13/2
  and the services overview with 9/2. Whatever company name \<open>v\<close> the environment
  configures, the query returns a first result, it is \<open>pricing-billing\<close>, and its score is
  at least 2.
\<close>

theorem pricing_ranked_first:
  "map (\<lambda>r. (chunk_id (chunk r), score r))
      (retrieveRelevantChunks (knowledgeBase (COMPANY_NAME None)) ''how much does a website cost'' 4 2) =
     [(''pricing-billing'', 7), (''faq-redesign'', 13 / 2), (''services-overview'', 9 / 2)]
   \<and> retrieveRelevantChunks (knowledgeBase (COMPANY_NAME v)) ''how much does a website cost'' 4 2 \<noteq> []
   \<and> chunk_id (chunk (hd (retrieveRelevantChunks (knowledgeBase (COMPANY_NAME v))
        ''how much does a website cost'' 4 2))) = ''pricing-billing''
   \<and> 2 \<le> score (hd (retrieveRelevantChunks (knowledgeBase (COMPANY_NAME v))
        ''how much does a website cost'' 4 2))"
proof -
  have d: "map (\<lambda>r. (chunk_id (chunk r), score r))
      (retrieveRelevantChunks (knowledgeBase (COMPANY_NAME None)) ''how much does a website cost'' 4 2) =
     [(''pricing-billing'', 7), (''faq-redesign'', 13 / 2), (''services-overview'', 9 / 2)]"
    by (simp add: COMPANY_NAME_def retrieve_cost_query slice0_def cost_query_scores
        default_name_terms chunk_scoreChunk cost_query_chunk_ids)
  have "2 \<le> score (scoreChunk (chunk_pricing_billing (COMPANY_NAME v)) [''much'', ''website'', ''cost''])"
    by (simp add: score_pricing_billing)
  then show ?thesis
    using d retrieve_cost_query_first [of "COMPANY_NAME v"]
    by (simp add: chunk_scoreChunk cost_query_chunk_ids)
qed

theorem pricing_ranked_first_witness:
  "length (retrieveRelevantChunks (knowledgeBase (COMPANY_NAME None)) ''how much does a website cost'' 4 2) = 3
   \<and> chunk_id (chunk (hd (retrieveRelevantChunks (knowledgeBase (COMPANY_NAME (Some ''Website Costs Ltd'')))
        ''how much does a website cost'' 4 2))) = ''pricing-billing''"
proof -
  have "length (map (\<lambda>r. (chunk_id (chunk r), score r))
      (retrieveRelevantChunks (knowledgeBase (COMPANY_NAME None)) ''how much does a website cost'' 4 2)) = 3"
    using pricing_ranked_first [of None] by simp
  then have l: "length (retrieveRelevantChunks (knowledgeBase (COMPANY_NAME None))
      ''how much does a website cost'' 4 2) = 3"
    by (simp only: length_map)
  have h: "chunk_id (chunk (hd (retrieveRelevantChunks (knowledgeBase (COMPANY_NAME (Some ''Website Costs Ltd'')))
        ''how much does a website cost'' 4 2))) = ''pricing-billing''"
    using pricing_ranked_first [of "Some ''Website Costs Ltd''"] by blast
  show ?thesis using l h by (rule conjI)
qed

end
